theory Spec2Isabelle
  imports Complex_Main "HOL-Library.Multiset" "HOL-Library.Sublist"
begin

section \<open>Errors and the geometry library\<close>

text \<open>
  Every \<^verbatim>\<open>raise\<close> of \<^verbatim>\<open>main.py\<close> is a value: \<open>HTTPException status detail\<close> for
  the exceptions the module raises itself, \<open>ValueError\<close> for the ones raised by a field
  validator or by Python's \<^verbatim>\<open>max\<close> on an empty sequence, and \<open>RequestValidationError\<close>
  for the 422 answer of the framework when the request body does not validate.
\<close>

datatype error =
    HTTPException nat string
  | ValueError string
  | RequestValidationError

text \<open>
  The geometries are objects of the shapely library. The module only calls a handful of
  their operations, so the library is a record of exactly these operations over an
  arbitrary type \<open>'g\<close> of geometry objects: \<^verbatim>\<open>g.is_empty\<close>, the class tested by
  \<^verbatim>\<open>isinstance\<close>, \<^verbatim>\<open>g.geoms\<close>, \<^verbatim>\<open>g.area\<close>, \<^verbatim>\<open>a.intersection(b)\<close>,
  \<^verbatim>\<open>a.union(b)\<close>, \<^verbatim>\<open>g.centroid\<close> (as the pair \<open>(x, y)\<close>) and the constructor call
  \<^verbatim>\<open>Polygon()\<close>. Floating-point numbers are read as real numbers.
\<close>

datatype geom_class =
    Point | LineString | LinearRing | Polygon
  | MultiPoint | MultiLineString | MultiPolygon | GeometryCollection

record 'g shapely =
  geom_is_empty :: "'g \<Rightarrow> bool"
  geom_class :: "'g \<Rightarrow> geom_class"
  geom_geoms :: "'g \<Rightarrow> 'g list"
  geom_area :: "'g \<Rightarrow> real"
  geom_intersection :: "'g \<Rightarrow> 'g \<Rightarrow> 'g"
  geom_union :: "'g \<Rightarrow> 'g \<Rightarrow> 'g"
  geom_centroid :: "'g \<Rightarrow> real \<times> real"
  geom_Polygon :: "'g"

section \<open>The intersection reducer\<close>

text \<open>
  \<^verbatim>\<open>_intersection(polygons)\<close>: an empty sequence raises the HTTP 500 exception, otherwise
  \<^verbatim>\<open>reduce(lambda acc, poly: acc.intersection(poly), polygons[1:], polygons[0])\<close>,
  a left fold from the first element over the rest. (Isabelle names cannot start with an
  underscore, so the leading underscore of the private helpers is dropped.)
\<close>

definition intersection :: "'g shapely \<Rightarrow> 'g list \<Rightarrow> error + 'g" where
  "intersection S polygons =
     (case polygons of
        [] \<Rightarrow> Inl (HTTPException 500 ''No polygons to intersect'')
      | first # rest \<Rightarrow> Inr (foldl (\<lambda>acc poly. geom_intersection S acc poly) first rest))"

section \<open>Polygon normalization\<close>

text \<open>
  Python's \<^verbatim>\<open>max(xs, key=f)\<close> keeps the first element whose key is not exceeded by a
  later one (it replaces the running maximum only on a strictly greater key) and raises
  \<^verbatim>\<open>ValueError\<close> on an empty sequence.
\<close>

fun max_from :: "('a \<Rightarrow> real) \<Rightarrow> 'a \<Rightarrow> 'a list \<Rightarrow> 'a" where
  "max_from key best [] = best"
| "max_from key best (x # xs) =
     (if key best < key x then max_from key x xs else max_from key best xs)"

definition py_max :: "('a \<Rightarrow> real) \<Rightarrow> 'a list \<Rightarrow> error + 'a" where
  "py_max key xs =
     (case xs of
        [] \<Rightarrow> Inl (ValueError ''max() arg is an empty sequence'')
      | x # rest \<Rightarrow> Inr (max_from key x rest))"

text \<open>
  \<^verbatim>\<open>_largest_component(geometry)\<close>: the component of greatest area of a MultiPolygon,
  any other geometry itself.
\<close>

definition largest_component :: "'g shapely \<Rightarrow> 'g \<Rightarrow> error + 'g" where
  "largest_component S geometry =
     (if geom_class S geometry = MultiPolygon
      then py_max (geom_area S) (geom_geoms S geometry)
      else Inr geometry)"

definition is_polygonal :: "'g shapely \<Rightarrow> 'g \<Rightarrow> bool" where
  \<comment> \<open>\<^verbatim>\<open>isinstance(geom, (Polygon, MultiPolygon))\<close>\<close>
  "is_polygonal S geom = (geom_class S geom = Polygon \<or> geom_class S geom = MultiPolygon)"

text \<open>
  \<^verbatim>\<open>_polygonal_region(geometry)\<close>, branch by branch: an empty geometry is returned as
  it is; a Polygon or MultiPolygon gives its largest component; of a GeometryCollection
  the Polygon and MultiPolygon members are kept, united from the first on, and the
  largest component of the union is returned (\<^verbatim>\<open>Polygon()\<close> when no member is kept);
  every other geometry gives \<^verbatim>\<open>Polygon()\<close>.
\<close>

definition polygonal_region :: "'g shapely \<Rightarrow> 'g \<Rightarrow> error + 'g" where
  "polygonal_region S geometry =
     (if geom_is_empty S geometry then Inr geometry
      else if is_polygonal S geometry then largest_component S geometry
      else if geom_class S geometry = GeometryCollection then
        (case filter (is_polygonal S) (geom_geoms S geometry) of
           [] \<Rightarrow> Inr (geom_Polygon S)
         | first # rest \<Rightarrow> largest_component S (foldl (geom_union S) first rest))
      else Inr (geom_Polygon S))"

text \<open>
  What the module relies on of the library's classes: \<^verbatim>\<open>Polygon()\<close> is empty, the
  members of a MultiPolygon are Polygons, and the union of two polygonal geometries is
  polygonal again.
\<close>

definition shapely_classes :: "'g shapely \<Rightarrow> bool" where
  "shapely_classes S =
     (geom_is_empty S (geom_Polygon S)
      \<and> (\<forall>g p. geom_class S g = MultiPolygon \<and> p \<in> set (geom_geoms S g)
             \<longrightarrow> geom_class S p = Polygon)
      \<and> (\<forall>a b. is_polygonal S a \<and> is_polygonal S b \<longrightarrow> is_polygonal S (geom_union S a b)))"

section \<open>The request and its validation\<close>

definition MAX_PARTICIPANTS :: nat where "MAX_PARTICIPANTS = 10"
definition DEFAULT_MAX_MINUTES :: int where "DEFAULT_MAX_MINUTES = 15"
definition MAX_MAX_MINUTES :: int where "MAX_MAX_MINUTES = 60"
definition SUPPORTED_OBJECTIVES :: "string set" where
  "SUPPORTED_OBJECTIVES = {''min_sum'', ''min_max''}"
definition SUPPORTED_PROFILES :: "string set" where
  "SUPPORTED_PROFILES = {''walking''}"

text \<open>
  What the module uses of the Python runtime is a parameter as well. \<^verbatim>\<open>str.lower()\<close> and
  the set of characters \<^verbatim>\<open>str.strip()\<close> removes depend on the Unicode tables:
  \<open>str_lower\<close> is \<^verbatim>\<open>s.lower()\<close> and \<open>str_isspace c\<close> says that \<^verbatim>\<open>strip()\<close> removes
  the character \<open>c\<close>. The built-in \<^verbatim>\<open>round(x, ndigits)\<close> works on the binary
  representation of the float \<open>x\<close>, which decides on which side of a decimal tie \<open>x\<close>
  lies: \<open>float_round x ndigits\<close> is its result. Floating-point numbers are read as real
  numbers, and nothing is fixed about \<open>float_round\<close> in the definitions.
\<close>

record py_ops =
  str_lower :: "string \<Rightarrow> string"
  str_isspace :: "char \<Rightarrow> bool"
  float_round :: "real \<Rightarrow> nat \<Rightarrow> real"

definition strip :: "py_ops \<Rightarrow> string \<Rightarrow> string" where
  \<comment> \<open>\<^verbatim>\<open>s.strip()\<close>: leading and trailing whitespace removed, the inside kept\<close>
  "strip ops s = rev (dropWhile (str_isspace ops) (rev (dropWhile (str_isspace ops) s)))"

record MeetingPointRequest =
  addresses :: "string list"
  profile :: string
  max_minutes :: int
  objective :: string
  grid_resolution_m :: "real option"
  city_hint :: "string option"

text \<open>
  The JSON body as it arrives: a field that is absent is \<open>None\<close>. \<^verbatim>\<open>addresses\<close> is
  required; the other fields have defaults.
\<close>

record request_body =
  body_addresses :: "string list option"
  body_profile :: "string option"
  body_max_minutes :: "int option"
  body_objective :: "string option"
  body_grid_resolution_m :: "real option"
  body_city_hint :: "string option"

definition validate_addresses :: "py_ops \<Rightarrow> string list \<Rightarrow> error + string list" where
  "validate_addresses ops value =
     (let cleaned = map (strip ops) (filter (\<lambda>addr. strip ops addr \<noteq> []) value) in
      if cleaned = [] then Inl (ValueError ''addresses cannot be empty'')
      else if length cleaned > MAX_PARTICIPANTS
        then Inl (ValueError ''maximum 10 addresses are supported'')
      else Inr cleaned)"

definition normalize_profile :: "py_ops \<Rightarrow> string \<Rightarrow> error + string" where
  "normalize_profile ops value =
     (let profile = str_lower ops value;
          profile = (if prefix ''mapbox/'' profile then drop 7 profile else profile) in
      if profile \<notin> SUPPORTED_PROFILES
        then Inl (ValueError ''profile must be one of: walking'')
      else Inr profile)"

definition normalize_objective :: "py_ops \<Rightarrow> string \<Rightarrow> error + string" where
  "normalize_objective ops value =
     (let objective = str_lower ops value in
      if objective \<notin> SUPPORTED_OBJECTIVES
        then Inl (ValueError ''objective must be one of: min_max, min_sum'')
      else Inr objective)"

text \<open>
  The field declarations of \<^verbatim>\<open>MeetingPointRequest\<close>, one function per field: the
  constraint of the \<^verbatim>\<open>Field\<close> first (\<^verbatim>\<open>min_length=1\<close>, \<^verbatim>\<open>ge=5, le=MAX_MAX_MINUTES\<close>,
  \<^verbatim>\<open>gt=0\<close>), then the field's validator. A default is taken as it is.
\<close>

definition field_addresses :: "py_ops \<Rightarrow> string list option \<Rightarrow> error + string list" where
  "field_addresses ops given =
     (case given of
        None \<Rightarrow> Inl RequestValidationError
      | Some value \<Rightarrow>
          if length value < 1 then Inl RequestValidationError
          else validate_addresses ops value)"

definition field_profile :: "py_ops \<Rightarrow> string option \<Rightarrow> error + string" where
  "field_profile ops given =
     (case given of None \<Rightarrow> Inr ''walking'' | Some value \<Rightarrow> normalize_profile ops value)"

definition field_max_minutes :: "int option \<Rightarrow> error + int" where
  "field_max_minutes given =
     (case given of
        None \<Rightarrow> Inr DEFAULT_MAX_MINUTES
      | Some value \<Rightarrow>
          if 5 \<le> value \<and> value \<le> MAX_MAX_MINUTES then Inr value
          else Inl RequestValidationError)"

definition field_objective :: "py_ops \<Rightarrow> string option \<Rightarrow> error + string" where
  "field_objective ops given =
     (case given of None \<Rightarrow> Inr ''min_sum'' | Some value \<Rightarrow> normalize_objective ops value)"

definition field_grid_resolution_m :: "real option \<Rightarrow> error + real option" where
  "field_grid_resolution_m given =
     (case given of
        None \<Rightarrow> Inr None
      | Some value \<Rightarrow> if 0 < value then Inr (Some value) else Inl RequestValidationError)"

text \<open>
  The model is built when every field validates; any failure makes the framework answer
  422 before the endpoint's body runs.
\<close>

definition validate_request :: "py_ops \<Rightarrow> request_body \<Rightarrow> error + MeetingPointRequest" where
  "validate_request ops body =
     (case (field_addresses ops (body_addresses body),
            field_profile ops (body_profile body),
            field_max_minutes (body_max_minutes body),
            field_objective ops (body_objective body),
            field_grid_resolution_m (body_grid_resolution_m body)) of
        (Inr a, Inr p, Inr m, Inr ob, Inr gr) \<Rightarrow>
          Inr \<lparr>addresses = a, profile = p, max_minutes = m, objective = ob,
               grid_resolution_m = gr, city_hint = body_city_hint body\<rparr>
      | _ \<Rightarrow> Inl RequestValidationError)"

section \<open>Deduplication of the addresses\<close>

text \<open>
  \<^verbatim>\<open>_deduplicate_addresses\<close>: the loop over the addresses with its two variables, the
  set \<^verbatim>\<open>seen\<close> of lowercased keys and the list \<^verbatim>\<open>deduped\<close>.
\<close>

fun dedup_loop :: "(string \<Rightarrow> string) \<Rightarrow> string list \<Rightarrow> string set \<Rightarrow> string list \<Rightarrow> string list" where
  "dedup_loop lower [] seen deduped = deduped"
| "dedup_loop lower (addr # rest) seen deduped =
     (let key = lower addr in
      if key \<in> seen then dedup_loop lower rest seen deduped
      else dedup_loop lower rest (insert key seen) (deduped @ [addr]))"

definition deduplicate_addresses :: "py_ops \<Rightarrow> string list \<Rightarrow> string list" where
  "deduplicate_addresses ops addrs = dedup_loop (str_lower ops) addrs {} []"

section \<open>Rounding and the objective\<close>


text \<open>
  \<^verbatim>\<open>_objective_value(values, objective)\<close>: the sum for \<^verbatim>\<open>"min_sum"\<close>, the maximum for
  every other objective (\<^verbatim>\<open>max\<close> raises on an empty list).
\<close>

definition objective_value :: "real list \<Rightarrow> string \<Rightarrow> error + real" where
  "objective_value values objective_name =
     (if objective_name = ''min_sum'' then Inr (sum_list values)
      else py_max (\<lambda>v. v) values)"

section \<open>The Mapbox collaborators and the calls made to them\<close>

text \<open>
  \<^verbatim>\<open>_geocode_address\<close>, \<^verbatim>\<open>_fetch_isochrone\<close> and \<^verbatim>\<open>_travel_time_seconds\<close> talk to
  Mapbox over HTTP; the tests of the module replace exactly these three functions, and so
  does the model: each is a function from its arguments (the HTTP client left out) to the
  value it returns or the exception it raises. \<open>env_MAPBOX_TOKEN\<close> is the environment
  variable read by \<^verbatim>\<open>_mapbox_token\<close>.
\<close>

type_synonym coordinate = "real \<times> real"

record 'g mapbox =
  env_MAPBOX_TOKEN :: "string option"
  geocode_address :: "string \<Rightarrow> string option \<Rightarrow> string \<Rightarrow> error + coordinate"
  fetch_isochrone :: "coordinate \<Rightarrow> int \<Rightarrow> string \<Rightarrow> string \<Rightarrow> error + 'g"
  travel_time_seconds :: "coordinate \<Rightarrow> coordinate \<Rightarrow> string \<Rightarrow> string \<Rightarrow> error + real"

definition mapbox_token :: "'g mapbox \<Rightarrow> error + string" where
  "mapbox_token M =
     (case env_MAPBOX_TOKEN M of
        None \<Rightarrow> Inl (HTTPException 500 ''MAPBOX_TOKEN environment variable is required'')
      | Some token \<Rightarrow>
          if token = [] then Inl (HTTPException 500 ''MAPBOX_TOKEN environment variable is required'')
          else Inr token)"

text \<open>
  Every call of one of the three functions is recorded, so that what is fetched, for whom
  and at which budget can be stated (a geocoding call may be answered from the cache of
  \<^verbatim>\<open>_geocode_address\<close> without a request to Mapbox). A computation returns its
  value or its exception together with the calls it made, in order.
\<close>

datatype call =
    GeocodeCall string
  | IsochroneCall coordinate int
  | DirectionsCall coordinate coordinate

type_synonym 'a io = "(error + 'a) \<times> call list"

definition io_return :: "'a \<Rightarrow> 'a io" where
  "io_return v = (Inr v, [])"

definition io_raise :: "error \<Rightarrow> 'a io" where
  "io_raise e = (Inl e, [])"

definition io_of :: "error + 'a \<Rightarrow> 'a io" where
  \<comment> \<open>a step that calls no collaborator\<close>
  "io_of r = (r, [])"

definition io_bind :: "'a io \<Rightarrow> ('a \<Rightarrow> 'b io) \<Rightarrow> 'b io" where
  "io_bind m f =
     (case m of
        (Inl e, calls) \<Rightarrow> (Inl e, calls)
      | (Inr v, calls) \<Rightarrow> (case f v of (r, calls') \<Rightarrow> (r, calls @ calls')))"

text \<open>
  \<^verbatim>\<open>await asyncio.gather(*tasks)\<close>: every task of the batch is started, so every call
  of the batch is made; the results come back in the order of the tasks, and when a task
  raises, the batch raises. Which exception is raised when several tasks fail depends on
  their timing; the model takes the first in the order of the tasks.
\<close>

fun collect :: "(error + 'a) list \<Rightarrow> error + 'a list" where
  "collect [] = Inr []"
| "collect (Inl e # rs) = Inl e"
| "collect (Inr v # rs) = (case collect rs of Inl e \<Rightarrow> Inl e | Inr vs \<Rightarrow> Inr (v # vs))"

definition gather :: "(call \<times> (error + 'a)) list \<Rightarrow> 'a list io" where
  "gather tasks = (collect (map snd tasks), map fst tasks)"

section \<open>The endpoint\<close>

text \<open>
  The two shapes of the answer: the short \<^verbatim>\<open>JSONResponse\<close> of an empty region, with
  its keys \<^verbatim>\<open>reachable\<close>, \<^verbatim>\<open>reason\<close> and \<^verbatim>\<open>max_minutes\<close>, and the full body.
  \<^verbatim>\<open>reason\<close> is a key of the full body only when the candidate is not reachable.
\<close>

record participant =
  p_address :: string
  p_lat :: real
  p_lng :: real
  p_eta_minutes :: real

record 'g response_body =
  r_meeting_point_lat :: real
  r_meeting_point_lng :: real
  r_participants :: "participant list"
  r_objective :: string
  r_objective_value :: real
  r_max_minutes :: int
  r_reachable :: bool
  r_reason :: "string option"
  r_debug_intersection_polygons :: 'g

datatype 'g response =
    JSONResponse bool string int
  | Body "'g response_body"

text \<open>
  \<^verbatim>\<open>compute_with_minutes(minutes)\<close>: one isochrone per coordinate at this budget, then
  their intersection.
\<close>

definition compute_with_minutes ::
  "'g shapely \<Rightarrow> 'g mapbox \<Rightarrow> string \<Rightarrow> MeetingPointRequest \<Rightarrow> coordinate list \<Rightarrow> int \<Rightarrow> 'g io" where
  "compute_with_minutes S M token payload coords minutes =
     io_bind
       (gather (map (\<lambda>coord. (IsochroneCall coord minutes,
                                fetch_isochrone M coord minutes (profile payload) token)) coords))
       (\<lambda>shapes. io_of (intersection S shapes))"

text \<open>
  Lines 292 to 298 of \<^verbatim>\<open>meeting_point\<close>: the intersection at the requested budget and,
  when it is empty and the budget is below \<^verbatim>\<open>MAX_MAX_MINUTES\<close>, once more at the bumped
  budget. The result is the pair of \<^verbatim>\<open>intersection_geom\<close> and
  \<^verbatim>\<open>effective_max_minutes\<close>.
\<close>

definition escalate ::
  "'g shapely \<Rightarrow> 'g mapbox \<Rightarrow> string \<Rightarrow> MeetingPointRequest \<Rightarrow> coordinate list \<Rightarrow> ('g \<times> int) io" where
  "escalate S M token payload coords =
     io_bind (compute_with_minutes S M token payload coords (max_minutes payload))
       (\<lambda>intersection_geom.
          if geom_is_empty S intersection_geom \<and> max_minutes payload < MAX_MAX_MINUTES then
            (let bumped = min MAX_MAX_MINUTES (max_minutes payload + 5) in
             io_bind (compute_with_minutes S M token payload coords bumped)
               (\<lambda>intersection_geom. io_return (intersection_geom, bumped)))
          else io_return (intersection_geom, max_minutes payload))"

text \<open>
  Lines 321 to 362: the centroid of the region, one travel time per coordinate, the
  minutes rounded to one decimal, the participants, the objective value rounded to two
  decimals, the verdict and the body of the answer.
\<close>

definition evaluate ::
  "'g shapely \<Rightarrow> 'g mapbox \<Rightarrow> py_ops \<Rightarrow> string \<Rightarrow> MeetingPointRequest \<Rightarrow> string list
     \<Rightarrow> coordinate list \<Rightarrow> 'g \<Rightarrow> int \<Rightarrow> 'g response io" where
  "evaluate S M ops token payload addrs coords region effective_max_minutes =
     (let centroid = geom_centroid S region in
      io_bind
        (gather (map (\<lambda>coord. (DirectionsCall coord centroid,
                                 travel_time_seconds M coord centroid (profile payload) token)) coords))
        (\<lambda>durations_seconds.
           let durations_minutes = map (\<lambda>d. float_round ops (d / 60) 1) durations_seconds;
               participants =
                 map (\<lambda>(address, coord, eta).
                        \<lparr>p_address = address, p_lat = snd coord, p_lng = fst coord,
                         p_eta_minutes = eta\<rparr>)
                     (zip addrs (zip coords durations_minutes))
           in io_bind (io_of (objective_value durations_minutes (objective payload)))
                (\<lambda>v.
                   let reachable =
                         list_all (\<lambda>d. d \<le> of_int effective_max_minutes + 1 / 2) durations_minutes
                   in io_return
                        (Body \<lparr>r_meeting_point_lat = snd centroid,
                               r_meeting_point_lng = fst centroid,
                               r_participants = participants,
                               r_objective = objective payload,
                               r_objective_value = float_round ops v 2,
                               r_max_minutes = effective_max_minutes,
                               r_reachable = reachable,
                               r_reason = (if \<not> reachable then Some ''travel_time_exceeds_budget''
                                           else None),
                               r_debug_intersection_polygons = region\<rparr>))))"

text \<open>
  \<^verbatim>\<open>meeting_point(payload)\<close>: the token, the deduplicated addresses, their coordinates,
  the intersection with its single retry, the two tests for an empty region (the raw
  intersection at line 300, the normalized region at line 312), and the evaluation.
\<close>

definition meeting_point ::
  "'g shapely \<Rightarrow> 'g mapbox \<Rightarrow> py_ops \<Rightarrow> MeetingPointRequest \<Rightarrow> 'g response io" where
  "meeting_point S M ops payload =
     io_bind (io_of (mapbox_token M))
       (\<lambda>token.
          let addrs = deduplicate_addresses ops (addresses payload) in
          if addrs = [] then
            io_raise (HTTPException 400 ''No addresses supplied after deduplication'')
          else
            io_bind
              (gather (map (\<lambda>address. (GeocodeCall address,
                                         geocode_address M address (city_hint payload) token)) addrs))
              (\<lambda>coords.
                 io_bind (escalate S M token payload coords)
                   (\<lambda>(intersection_geom, effective_max_minutes).
                      if geom_is_empty S intersection_geom then
                        io_return (JSONResponse False ''no_common_reachable_region''
                                     effective_max_minutes)
                      else
                        io_bind (io_of (polygonal_region S intersection_geom))
                          (\<lambda>region.
                             if geom_is_empty S region then
                               io_return (JSONResponse False ''no_common_reachable_region''
                                            effective_max_minutes)
                             else evaluate S M ops token payload addrs coords region
                                    effective_max_minutes))))"

text \<open>
  The route \<^verbatim>\<open>POST /api/meeting-point\<close>: the body is validated into a
  \<^verbatim>\<open>MeetingPointRequest\<close> first; only a valid request reaches \<^verbatim>\<open>meeting_point\<close>.
\<close>

definition post_meeting_point ::
  "'g shapely \<Rightarrow> 'g mapbox \<Rightarrow> py_ops \<Rightarrow> request_body \<Rightarrow> 'g response io" where
  "post_meeting_point S M ops body =
     (case validate_request ops body of
        Inl e \<Rightarrow> io_raise e
      | Inr payload \<Rightarrow> meeting_point S M ops payload)"

section \<open>Notions the properties are stated with\<close>

text \<open>
  The normalized output of the reducer: \<^verbatim>\<open>_polygonal_region(_intersection(regions))\<close>,
  an exception of either step passed on.
\<close>

definition normalized_intersection :: "'g shapely \<Rightarrow> 'g list \<Rightarrow> error + 'g" where
  "normalized_intersection S regions =
     (case intersection S regions of Inl e \<Rightarrow> Inl e | Inr g \<Rightarrow> polygonal_region S g)"

text \<open>
  The algebra of the library's \<^verbatim>\<open>intersection\<close>: commutative and associative.
\<close>

definition intersection_laws :: "'g shapely \<Rightarrow> bool" where
  "intersection_laws S =
     ((\<forall>a b. geom_intersection S a b = geom_intersection S b a)
      \<and> (\<forall>a b c. geom_intersection S (geom_intersection S a b) c
                   = geom_intersection S a (geom_intersection S b c)))"


text \<open>The calls of one kind among the calls made.\<close>

fun is_isochrone_call :: "call \<Rightarrow> bool" where
  "is_isochrone_call (IsochroneCall coord minutes) = True"
| "is_isochrone_call c = False"

fun is_geocode_call :: "call \<Rightarrow> bool" where
  "is_geocode_call (GeocodeCall address) = True"
| "is_geocode_call c = False"

text \<open>
  Two addresses that differ only by case or whitespace, in the widest reading of the
  words: equal once every whitespace character is removed and the rest is lowercased.
\<close>

definition differ_only_by_case_or_whitespace :: "py_ops \<Rightarrow> string \<Rightarrow> string \<Rightarrow> bool" where
  "differ_only_by_case_or_whitespace ops a b =
     (str_lower ops (filter (\<lambda>c. \<not> str_isspace ops c) a)
        = str_lower ops (filter (\<lambda>c. \<not> str_isspace ops c) b))"

section \<open>A concrete library and concrete collaborators\<close>

text \<open>
  To evaluate the definitions on inputs, a small exact instance of the geometry library:
  the plane holds four pieces, the box \<open>[0,1] \<times> [0,1]\<close> without its right side (west), the
  segment from \<open>(1,0)\<close> to \<open>(1,1)\<close> (seam), the box \<open>[1,2] \<times> [0,1]\<close> without its left
  side (east) and the box \<open>[3,4] \<times> [0,2]\<close> (far). A geometry is a union of pieces,
  \<open>Grid west seam east far\<close>. Intersection and union act piece by piece. The class is the
  one shapely gives the union of pieces: a lone seam is a LineString, boxes joined by the
  seam are one Polygon, a box next to the seam together with the far box is a
  MultiPolygon, the seam together with the far box only is a GeometryCollection of a line
  and a polygon, and nothing at all is the empty polygon.
\<close>

datatype grid = Grid bool bool bool bool

fun grid_is_empty :: "grid \<Rightarrow> bool" where
  "grid_is_empty (Grid w s e f) = (\<not> w \<and> \<not> s \<and> \<not> e \<and> \<not> f)"

fun grid_class :: "grid \<Rightarrow> geom_class" where
  "grid_class (Grid w s e f) =
     (if \<not> w \<and> \<not> e \<and> \<not> f then (if s then LineString else Polygon)
      else if (w \<or> e) \<and> f then MultiPolygon
      else if s \<and> \<not> w \<and> \<not> e then GeometryCollection
      else Polygon)"

fun grid_geoms :: "grid \<Rightarrow> grid list" where
  "grid_geoms (Grid w s e f) =
     (if (w \<or> e) \<and> f then [Grid w s e False, Grid False False False True]
      else if s \<and> \<not> w \<and> \<not> e \<and> f then [Grid False True False False, Grid False False False True]
      else [])"

fun grid_area :: "grid \<Rightarrow> real" where
  "grid_area (Grid w s e f) =
     (if w then 1 else 0) + (if e then 1 else 0) + (if f then 2 else 0)"

fun grid_intersection :: "grid \<Rightarrow> grid \<Rightarrow> grid" where
  "grid_intersection (Grid w s e f) (Grid w' s' e' f') =
     Grid (w \<and> w') (s \<and> s') (e \<and> e') (f \<and> f')"

fun grid_union :: "grid \<Rightarrow> grid \<Rightarrow> grid" where
  "grid_union (Grid w s e f) (Grid w' s' e' f') =
     Grid (w \<or> w') (s \<or> s') (e \<or> e') (f \<or> f')"

fun grid_centroid :: "grid \<Rightarrow> real \<times> real" where
  "grid_centroid (Grid w s e f) =
     (((if w then 1 / 2 else 0) + (if e then 3 / 2 else 0) + (if f then 7 else 0))
        / grid_area (Grid w s e f),
      ((if w then 1 / 2 else 0) + (if e then 1 / 2 else 0) + (if f then 2 else 0))
        / grid_area (Grid w s e f))"


definition grid_shapely :: "grid shapely" where
  "grid_shapely =
     \<lparr>geom_is_empty = grid_is_empty, geom_class = grid_class, geom_geoms = grid_geoms,
      geom_area = grid_area, geom_intersection = grid_intersection,
      geom_union = grid_union, geom_centroid = grid_centroid,
      geom_Polygon = Grid False False False False\<rparr>"

definition unit_box :: grid where
  \<comment> \<open>\<^verbatim>\<open>box(0, 0, 1, 1)\<close>\<close>
  "unit_box = Grid True True False False"

definition east_box :: grid where
  \<comment> \<open>\<^verbatim>\<open>box(1, 0, 2, 1)\<close>\<close>
  "east_box = Grid False True True False"

definition wide_box :: grid where
  \<comment> \<open>\<^verbatim>\<open>box(0, 0, 2, 1)\<close>\<close>
  "wide_box = Grid True True True False"

definition far_box :: grid where
  \<comment> \<open>\<^verbatim>\<open>box(3, 0, 4, 2)\<close>\<close>
  "far_box = Grid False False False True"


text \<open>
  The ASCII part of \<^verbatim>\<open>str.lower()\<close> and of the whitespace \<^verbatim>\<open>str.strip()\<close> removes.
\<close>

definition ascii_lower :: "char \<Rightarrow> char" where
  "ascii_lower c =
     (case map_of (zip ''ABCDEFGHIJKLMNOPQRSTUVWXYZ'' ''abcdefghijklmnopqrstuvwxyz'') c of
        None \<Rightarrow> c
      | Some l \<Rightarrow> l)"

definition ascii_isspace :: "char \<Rightarrow> bool" where
  "ascii_isspace c =
     (let n = of_char c :: nat in n = 32 \<or> (9 \<le> n \<and> n \<le> 13) \<or> (28 \<le> n \<and> n \<le> 31))"

text \<open>
  One rounding that keeps the promise of \<^verbatim>\<open>round\<close>: to the nearest number with
  \<open>ndigits\<close> decimals, a tie of the exact value to the even neighbour. It is used to
  evaluate the definitions at inputs that are no ties; at a decimal tie such as 3 seconds
  the program's \<^verbatim>\<open>round\<close> sees the binary float next to it and may go the other way.
\<close>

definition round_half_even :: "real \<Rightarrow> int" where
  "round_half_even x =
     (let f = \<lfloor>x\<rfloor>; d = x - of_int f in
      if d < 1 / 2 then f
      else if 1 / 2 < d then f + 1
      else if even f then f else f + 1)"

definition decimal_round :: "real \<Rightarrow> nat \<Rightarrow> real" where
  "decimal_round x ndigits = of_int (round_half_even (x * 10 ^ ndigits)) / 10 ^ ndigits"

definition ascii_ops :: py_ops where
  "ascii_ops =
     \<lparr>str_lower = map ascii_lower, str_isspace = ascii_isspace, float_round = decimal_round\<rparr>"

text \<open>
  Collaborators in the manner of the module's tests: the token is set, an address is
  geocoded to a coordinate made of its length, the isochrone of a coordinate at a budget
  is read from \<open>isochrones\<close>, and the travel time from a coordinate is read from \<open>secs\<close>.
\<close>

definition fake_mapbox :: "(coordinate \<Rightarrow> int \<Rightarrow> 'g) \<Rightarrow> (coordinate \<Rightarrow> real) \<Rightarrow> 'g mapbox" where
  "fake_mapbox isochrones secs =
     \<lparr>env_MAPBOX_TOKEN = Some ''test-token'',
      geocode_address = (\<lambda>address hint token. Inr (real (length address), 0)),
      fetch_isochrone = (\<lambda>coord minutes prof token. Inr (isochrones coord minutes)),
      travel_time_seconds = (\<lambda>origin destination prof token. Inr (secs origin))\<rparr>"

definition request_for :: "string list \<Rightarrow> int \<Rightarrow> string \<Rightarrow> MeetingPointRequest" where
  "request_for addrs minutes obj =
     \<lparr>addresses = addrs, profile = ''walking'', max_minutes = minutes, objective = obj,
      grid_resolution_m = None, city_hint = None\<rparr>"

definition body_for :: "string list \<Rightarrow> int \<Rightarrow> request_body" where
  \<comment> \<open>a JSON body with the keys \<^verbatim>\<open>addresses\<close> and \<^verbatim>\<open>max_minutes\<close> only\<close>
  "body_for addrs minutes =
     \<lparr>body_addresses = Some addrs, body_profile = None, body_max_minutes = Some minutes,
      body_objective = None, body_grid_resolution_m = None, body_city_hint = None\<rparr>"

text \<open>
  Three pairs of isochrones for the participants at \<open>(4, 0)\<close> and \<open>(6, 0)\<close>: two boxes
  that share only the seam below 20 minutes and overlap from 20 minutes on; two boxes
  that never meet; and the unit box for both.
\<close>

definition touching_iso :: "coordinate \<Rightarrow> int \<Rightarrow> grid" where
  "touching_iso coord minutes =
     (if minutes < 20 then (if fst coord = 4 then unit_box else east_box) else wide_box)"

definition disjoint_iso :: "coordinate \<Rightarrow> int \<Rightarrow> grid" where
  "disjoint_iso coord minutes = (if fst coord = 4 then unit_box else far_box)"

definition shared_iso :: "coordinate \<Rightarrow> int \<Rightarrow> grid" where
  "shared_iso coord minutes = unit_box"

text \<open>
  Three tables of travel times in seconds, by origin: ten minutes for everybody; ten
  minutes for the participant at \<open>(4, 0)\<close> and twenty for the other; five minutes and
  940 seconds.
\<close>

definition ten_minutes :: "coordinate \<Rightarrow> real" where
  "ten_minutes origin = 600"

definition second_is_late :: "coordinate \<Rightarrow> real" where
  "second_is_late origin = (if fst origin = 4 then 600 else 1200)"

definition uneven_seconds :: "coordinate \<Rightarrow> real" where
  "uneven_seconds origin = (if fst origin = 4 then 300 else 940)"

section \<open>Properties of the intersection reducer\<close>

text \<open>
  C7. Called with zero regions the reducer fails (the HTTP 500 exception with the detail
  "No polygons to intersect"); called with at least one region it does not raise and
  returns the intersection accumulated from the first region over the others, in order.
\<close>

theorem intersection_empty_fails_nonempty_returns:
  "intersection S [] = Inl (HTTPException 500 ''No polygons to intersect'')
   \<and> intersection S (p # ps) = Inr (foldl (geom_intersection S) p ps)"
  by (simp add: intersection_def)

text \<open>
  The reducer does not depend on the order of its regions when the library's
  intersection is commutative and associative.
\<close>

lemma intersection_commute:
  "intersection_laws S \<Longrightarrow> geom_intersection S a b = geom_intersection S b a"
  unfolding intersection_laws_def by (elim conjE allE) assumption

lemma intersection_assoc:
  "intersection_laws S \<Longrightarrow>
     geom_intersection S (geom_intersection S a b) c
       = geom_intersection S a (geom_intersection S b c)"
  unfolding intersection_laws_def by (elim conjE allE) assumption

lemma foldl_intersection_permuted:
  assumes "intersection_laws S" "mset xs = mset ys"
  shows "foldl (geom_intersection S) a xs = foldl (geom_intersection S) a ys"
proof -
  let ?f = "\<lambda>x acc. geom_intersection S acc x"
  have swap: "?f x \<circ> ?f y = ?f y \<circ> ?f x" for x y
  proof
    fix acc
    have "geom_intersection S (geom_intersection S acc y) x
            = geom_intersection S acc (geom_intersection S y x)"
      by (rule intersection_assoc [OF assms(1)])
    also have "\<dots> = geom_intersection S acc (geom_intersection S x y)"
      by (simp only: intersection_commute [OF assms(1), of y x])
    also have "\<dots> = geom_intersection S (geom_intersection S acc x) y"
      by (rule intersection_assoc [OF assms(1), symmetric])
    finally show "(?f x \<circ> ?f y) acc = (?f y \<circ> ?f x) acc" by simp
  qed
  have "fold ?f xs = fold ?f ys"
    by (rule fold_multiset_equiv [OF swap assms(2)])
  then show ?thesis by (simp add: foldl_conv_fold)
qed

lemma foldl_intersection_head:
  assumes "intersection_laws S" "mset (p # ps) = mset (q # qs)"
  shows "foldl (geom_intersection S) p ps = foldl (geom_intersection S) q qs"
proof (cases "p = q")
  case True
  then have "mset ps = mset qs" using assms(2) by simp
  then have "foldl (geom_intersection S) p ps = foldl (geom_intersection S) p qs"
    by (rule foldl_intersection_permuted [OF assms(1)])
  then show ?thesis unfolding True .
next
  case False
  have sets: "set (p # ps) = set (q # qs)" by (rule mset_eq_setD [OF assms(2)])
  have qin: "q \<in> set ps" using sets False by auto
  have pin: "p \<in> set qs" using sets False by auto
  have ps: "mset ps = mset (q # remove1 q ps)" using qin by simp
  have qs: "mset qs = mset (p # remove1 p qs)" using pin by simp
  have rest: "mset (remove1 q ps) = mset (remove1 p qs)"
  proof -
    have "add_mset p (mset ps) = add_mset q (mset qs)" using assms(2) by simp
    then have "add_mset p (mset ps) - {#p#} - {#q#} = add_mset q (mset qs) - {#p#} - {#q#}"
      by (rule arg_cong)
    moreover have "add_mset p (mset ps) - {#p#} - {#q#} = mset ps - {#q#}"
      by (simp add: multiset_eq_iff)
    moreover have "add_mset q (mset qs) - {#p#} - {#q#} = mset qs - {#p#}"
      by (simp add: multiset_eq_iff)
    ultimately have "mset ps - {#q#} = mset qs - {#p#}"
      by (simp only:)
    then show ?thesis by (simp only: mset_remove1)
  qed
  have "foldl (geom_intersection S) p ps = foldl (geom_intersection S) p (q # remove1 q ps)"
    by (rule foldl_intersection_permuted [OF assms(1) ps])
  also have "\<dots> = foldl (geom_intersection S) (geom_intersection S p q) (remove1 q ps)"
    by simp
  also have "\<dots> = foldl (geom_intersection S) (geom_intersection S p q) (remove1 p qs)"
    by (rule foldl_intersection_permuted [OF assms(1) rest])
  also have "\<dots> = foldl (geom_intersection S) (geom_intersection S q p) (remove1 p qs)"
    by (simp only: intersection_commute [OF assms(1), of p q])
  also have "\<dots> = foldl (geom_intersection S) q (p # remove1 p qs)"
    by simp
  also have "\<dots> = foldl (geom_intersection S) q qs"
    by (rule foldl_intersection_permuted [OF assms(1) qs [symmetric]])
  finally show ?thesis .
qed

lemma intersection_permuted:
  assumes "intersection_laws S" "mset ps = mset qs"
  shows "intersection S ps = intersection S qs"
proof (cases ps)
  case Nil
  then show ?thesis using assms(2) by simp
next
  case (Cons p ps')
  then obtain q qs' where q: "qs = q # qs'" using assms(2) by (cases qs) auto
  have m: "mset (p # ps') = mset (q # qs')" using assms(2) unfolding Cons q .
  show ?thesis
    unfolding Cons q using foldl_intersection_head [OF assms(1) m] by (simp add: intersection_def)
qed

text \<open>
  C5. For every non-empty list of regions and every permutation of it, the normalized
  output of the reducer is the same: the same region or the same exception, hence the
  same area and the same centroid. The library's intersection is taken to be commutative
  and associative, as the specification says it is.
\<close>

theorem normalized_intersection_permutation_invariant:
  assumes "intersection_laws S" "regions \<noteq> []" "mset regions = mset permuted"
  shows "normalized_intersection S permuted = normalized_intersection S regions
         \<and> map_sum id (geom_area S) (normalized_intersection S permuted)
             = map_sum id (geom_area S) (normalized_intersection S regions)
         \<and> map_sum id (geom_centroid S) (normalized_intersection S permuted)
             = map_sum id (geom_centroid S) (normalized_intersection S regions)"
  using intersection_permuted [OF assms(1,3)] by (simp add: normalized_intersection_def)





section \<open>Properties of the polygon normalization\<close>

lemma max_from_mem: "max_from key b xs \<in> set (b # xs)"
  by (induction xs arbitrary: b) auto

lemma py_max_mem: "py_max key xs = Inr r \<Longrightarrow> r \<in> set xs"
  using max_from_mem [of key] by (auto simp: py_max_def split: list.splits)

lemma foldl_union_polygonal:
  assumes "shapely_classes S" "is_polygonal S a" "\<forall>x \<in> set xs. is_polygonal S x"
  shows "is_polygonal S (foldl (geom_union S) a xs)"
  using assms(2,3)
proof (induction xs arbitrary: a)
  case Nil
  then show ?case by simp
next
  case (Cons x xs)
  have "is_polygonal S (geom_union S a x)"
    using assms(1) Cons.prems by (simp add: shapely_classes_def)
  then show ?case using Cons by simp
qed

lemma largest_component_Polygon:
  assumes "shapely_classes S" "is_polygonal S m" "largest_component S m = Inr r"
  shows "geom_class S r = Polygon"
proof (cases "geom_class S m = MultiPolygon")
  case True
  then have "r \<in> set (geom_geoms S m)"
    using assms(3) py_max_mem [of "geom_area S" "geom_geoms S m" r]
    by (simp add: largest_component_def)
  then show ?thesis using assms(1) True by (auto simp: shapely_classes_def)
next
  case False
  then show ?thesis using assms(2,3) by (simp add: largest_component_def is_polygonal_def)
qed

lemma polygonal_region_Polygon:
  "geom_class S r = Polygon \<Longrightarrow> polygonal_region S r = Inr r"
  by (simp add: polygonal_region_def is_polygonal_def largest_component_def)

lemma polygonal_region_empty:
  "geom_is_empty S r \<Longrightarrow> polygonal_region S r = Inr r"
  by (simp add: polygonal_region_def)

lemma polygonal_region_result:
  assumes "shapely_classes S" "polygonal_region S g = Inr r"
  shows "geom_is_empty S r \<or> geom_class S r = Polygon"
proof (cases "geom_is_empty S g")
  case True
  then show ?thesis using assms(2) by (simp add: polygonal_region_def)
next
  case ne: False
  show ?thesis
  proof (cases "is_polygonal S g")
    case True
    then show ?thesis
      using assms ne largest_component_Polygon [of S g r] by (simp add: polygonal_region_def)
  next
    case np: False
    show ?thesis
    proof (cases "geom_class S g = GeometryCollection")
      case False
      then show ?thesis using assms ne np by (simp add: polygonal_region_def shapely_classes_def)
    next
      case True
      show ?thesis
      proof (cases "filter (is_polygonal S) (geom_geoms S g)")
        case Nil
        then show ?thesis using assms ne np True by (simp add: polygonal_region_def shapely_classes_def)
      next
        case (Cons a xs)
        have "\<forall>x\<in>set (filter (is_polygonal S) (geom_geoms S g)). is_polygonal S x"
          by simp
        then have "is_polygonal S a" "\<forall>x\<in>set xs. is_polygonal S x"
          unfolding Cons by simp_all
        then have poly: "is_polygonal S (foldl (geom_union S) a xs)"
          by (rule foldl_union_polygonal [OF assms(1)])
        have "largest_component S (foldl (geom_union S) a xs) = Inr r"
          using assms(2) ne np True Cons by (simp add: polygonal_region_def)
        then have "geom_class S r = Polygon"
          by (rule largest_component_Polygon [OF assms(1) poly])
        then show ?thesis by simp
      qed
    qed
  qed
qed


text \<open>
  C4. Polygon normalization is idempotent: normalizing the result of a normalization
  gives that result again (and an exception of the first normalization is the exception
  of the two in a row), and a geometry that is a single Polygon is returned unchanged.
\<close>

theorem polygonal_region_idempotent:
  assumes "shapely_classes S"
  shows "(case polygonal_region S g of Inl e \<Rightarrow> Inl e | Inr r \<Rightarrow> polygonal_region S r)
           = polygonal_region S g
         \<and> (geom_class S g = Polygon \<longrightarrow> polygonal_region S g = Inr g)"
proof (cases "polygonal_region S g")
  case (Inl e)
  then show ?thesis using polygonal_region_Polygon [of S g] by auto
next
  case (Inr r)
  then have "polygonal_region S r = Inr r"
    using polygonal_region_result [OF assms Inr] polygonal_region_Polygon [of S r]
      polygonal_region_empty [of S r]
    by auto
  then show ?thesis using Inr polygonal_region_Polygon [of S g] by simp
qed

section \<open>The calls made by the steps of the endpoint\<close>

lemma fst_io_bind:
  "fst (io_bind m f) = (case fst m of Inl e \<Rightarrow> Inl e | Inr v \<Rightarrow> fst (f v))"
  by (cases m) (auto simp: io_bind_def split: sum.splits prod.splits)

lemma snd_io_bind:
  "snd (io_bind m f) = snd m @ (case fst m of Inl e \<Rightarrow> [] | Inr v \<Rightarrow> snd (f v))"
  by (cases m) (auto simp: io_bind_def split: sum.splits prod.splits)

lemma io_simps:
  "fst (io_return v) = Inr v" "snd (io_return v) = []"
  "fst (io_raise e) = Inl e" "snd (io_raise e) = []"
  "fst (io_of r) = r" "snd (io_of r) = []"
  "fst (gather tasks) = collect (map snd tasks)" "snd (gather tasks) = map fst tasks"
  by (simp_all add: io_return_def io_raise_def io_of_def gather_def)

lemma collect_length: "collect rs = Inr vs \<Longrightarrow> length vs = length rs"
proof (induction rs arbitrary: vs rule: collect.induct)
  case 1
  then show ?case by simp
next
  case (2 e rs)
  then show ?case by simp
next
  case (3 v rs)
  then show ?case by (auto split: sum.splits)
qed


lemma snd_compute_with_minutes:
  "snd (compute_with_minutes S M token payload coords minutes)
     = map (\<lambda>coord. IsochroneCall coord minutes) coords"
  by (simp add: compute_with_minutes_def snd_io_bind io_simps comp_def split: sum.splits)

lemma snd_escalate:
  "snd (escalate S M token payload coords)
     = map (\<lambda>coord. IsochroneCall coord (max_minutes payload)) coords
       @ (case fst (compute_with_minutes S M token payload coords (max_minutes payload)) of
            Inl e \<Rightarrow> []
          | Inr g \<Rightarrow>
              if geom_is_empty S g \<and> max_minutes payload < MAX_MAX_MINUTES
              then map (\<lambda>coord. IsochroneCall coord (min MAX_MAX_MINUTES (max_minutes payload + 5))) coords
              else [])"
  by (simp add: escalate_def snd_io_bind io_simps snd_compute_with_minutes Let_def
      split: sum.splits)

lemma snd_evaluate:
  "snd (evaluate S M ops token payload addrs coords region eff)
     = map (\<lambda>coord. DirectionsCall coord (geom_centroid S region)) coords"
  by (simp add: evaluate_def snd_io_bind io_simps Let_def comp_def split: sum.splits)

lemma filter_geocode_simps:
  "filter is_geocode_call (map GeocodeCall addrs) = map GeocodeCall addrs"
  "filter is_geocode_call (map (\<lambda>coord. IsochroneCall coord minutes) coords) = []"
  "filter is_geocode_call (map (\<lambda>coord. DirectionsCall coord dest) coords) = []"
  by (simp_all add: filter_map comp_def)

lemma filter_isochrone_simps:
  "filter is_isochrone_call (map GeocodeCall addrs) = []"
  "filter is_isochrone_call (map (\<lambda>coord. IsochroneCall coord minutes) coords)
     = map (\<lambda>coord. IsochroneCall coord minutes) coords"
  "filter is_isochrone_call (map (\<lambda>coord. DirectionsCall coord dest) coords) = []"
  by (simp_all add: filter_map comp_def)

lemma fst_escalate:
  "fst (escalate S M token payload coords)
     = (case fst (compute_with_minutes S M token payload coords (max_minutes payload)) of
          Inl e \<Rightarrow> Inl e
        | Inr g \<Rightarrow>
            if geom_is_empty S g \<and> max_minutes payload < MAX_MAX_MINUTES then
              (case fst (compute_with_minutes S M token payload coords
                           (min MAX_MAX_MINUTES (max_minutes payload + 5))) of
                 Inl e \<Rightarrow> Inl e
               | Inr g' \<Rightarrow> Inr (g', min MAX_MAX_MINUTES (max_minutes payload + 5)))
            else Inr (g, max_minutes payload))"
  by (simp add: escalate_def fst_io_bind io_simps Let_def split: sum.splits)

lemma fst_compute_escalate:
  "fst (escalate S M token payload coords) = Inr (g, eff) \<Longrightarrow>
     eff = max_minutes payload \<or> eff = min MAX_MAX_MINUTES (max_minutes payload + 5)"
  by (auto simp: escalate_def fst_io_bind io_simps Let_def split: sum.splits if_splits)

lemma fst_evaluate:
  "fst (evaluate S M ops token payload addrs coords region eff)
     = (case collect (map (\<lambda>coord. travel_time_seconds M coord (geom_centroid S region)
                                     (profile payload) token) coords) of
          Inl e \<Rightarrow> Inl e
        | Inr ds \<Rightarrow>
            (case objective_value (map (\<lambda>d. float_round ops (d / 60) 1) ds) (objective payload) of
               Inl e \<Rightarrow> Inl e
             | Inr v \<Rightarrow>
                 Inr (Body
                   \<lparr>r_meeting_point_lat = snd (geom_centroid S region),
                    r_meeting_point_lng = fst (geom_centroid S region),
                    r_participants =
                      map (\<lambda>(address, coord, eta).
                             \<lparr>p_address = address, p_lat = snd coord, p_lng = fst coord,
                              p_eta_minutes = eta\<rparr>)
                          (zip addrs (zip coords (map (\<lambda>d. float_round ops (d / 60) 1) ds))),
                    r_objective = objective payload,
                    r_objective_value = float_round ops v 2,
                    r_max_minutes = eff,
                    r_reachable =
                      list_all (\<lambda>d. d \<le> of_int eff + 1 / 2) (map (\<lambda>d. float_round ops (d / 60) 1) ds),
                    r_reason =
                      (if \<not> list_all (\<lambda>d. d \<le> of_int eff + 1 / 2)
                                 (map (\<lambda>d. float_round ops (d / 60) 1) ds)
                       then Some ''travel_time_exceeds_budget'' else None),
                    r_debug_intersection_polygons = region\<rparr>)))"
  by (simp add: evaluate_def fst_io_bind io_simps Let_def comp_def split: sum.splits)

lemma meeting_point_Body:
  assumes "fst (meeting_point S M ops payload) = Inr (Body r)"
  shows "\<exists>token coords g region eff.
           mapbox_token M = Inr token
         \<and> collect (map (\<lambda>address. geocode_address M address (city_hint payload) token)
                       (deduplicate_addresses ops (addresses payload))) = Inr coords
         \<and> deduplicate_addresses ops (addresses payload) \<noteq> []
         \<and> fst (escalate S M token payload coords) = Inr (g, eff)
         \<and> fst (evaluate S M ops token payload (deduplicate_addresses ops (addresses payload))
                   coords region eff) = Inr (Body r)"
  using assms
  by (auto simp: meeting_point_def fst_io_bind io_simps Let_def comp_def
      split: sum.splits prod.splits if_splits)

lemma meeting_point_unfold:
  assumes "mapbox_token M = Inr token"
    and "deduplicate_addresses ops (addresses payload) \<noteq> []"
    and "collect (map (\<lambda>address. geocode_address M address (city_hint payload) token)
                     (deduplicate_addresses ops (addresses payload))) = Inr coords"
  shows "fst (meeting_point S M ops payload)
           = (case fst (escalate S M token payload coords) of
                Inl e \<Rightarrow> Inl e
              | Inr (g, eff) \<Rightarrow>
                  if geom_is_empty S g
                  then Inr (JSONResponse False ''no_common_reachable_region'' eff)
                  else (case polygonal_region S g of
                          Inl e \<Rightarrow> Inl e
                        | Inr region \<Rightarrow>
                            if geom_is_empty S region
                            then Inr (JSONResponse False ''no_common_reachable_region'' eff)
                            else fst (evaluate S M ops token payload
                                        (deduplicate_addresses ops (addresses payload))
                                        coords region eff)))"
    and "snd (meeting_point S M ops payload)
           = map GeocodeCall (deduplicate_addresses ops (addresses payload))
             @ snd (escalate S M token payload coords)
             @ (case fst (escalate S M token payload coords) of
                  Inl e \<Rightarrow> []
                | Inr (g, eff) \<Rightarrow>
                    if geom_is_empty S g then []
                    else (case polygonal_region S g of
                            Inl e \<Rightarrow> []
                          | Inr region \<Rightarrow>
                              if geom_is_empty S region then []
                              else map (\<lambda>coord. DirectionsCall coord (geom_centroid S region))
                                     coords))"
  using assms
  by (simp_all add: meeting_point_def fst_io_bind snd_io_bind io_simps snd_evaluate Let_def
      comp_def split: sum.splits prod.splits)

lemma geocode_calls_meeting_point:
  "filter is_geocode_call (snd (meeting_point S M ops payload))
     = (case mapbox_token M of
          Inl e \<Rightarrow> []
        | Inr token \<Rightarrow> map GeocodeCall (deduplicate_addresses ops (addresses payload)))"
  by (simp add: meeting_point_def snd_io_bind fst_io_bind io_simps snd_escalate snd_evaluate
      filter_geocode_simps Let_def comp_def split: sum.splits prod.splits)


section \<open>Validation and deduplication\<close>

lemma dedup_loop_spec:
  "\<exists>rest. dedup_loop lower xs seen deduped = deduped @ rest
      \<and> subseq rest xs
      \<and> distinct (map lower rest)
      \<and> lower ` set rest = lower ` set xs - seen
      \<and> (\<forall>d \<in> set rest. find (\<lambda>a. lower a = lower d) xs = Some d)"
proof (induction xs arbitrary: seen deduped)
  case Nil
  then show ?case by simp
next
  case (Cons x xs)
  show ?case
  proof (cases "lower x \<in> seen")
    case True
    obtain rest where r: "dedup_loop lower xs seen deduped = deduped @ rest"
      "subseq rest xs" "distinct (map lower rest)"
      "lower ` set rest = lower ` set xs - seen"
      "\<forall>d \<in> set rest. find (\<lambda>a. lower a = lower d) xs = Some d"
      using Cons.IH [of seen deduped] by blast
    have "\<forall>d \<in> set rest. lower d \<in> lower ` set xs - seen"
      using r(4) by blast
    then have keys: "\<forall>d \<in> set rest. lower d \<noteq> lower x"
      using True by auto
    have "dedup_loop lower (x # xs) seen deduped = deduped @ rest"
      using True r(1) by simp
    moreover have "subseq rest (x # xs)" using r(2) by (rule list_emb_Cons)
    moreover have "lower ` set rest = lower ` set (x # xs) - seen"
      using r(4) True by auto
    moreover have "\<forall>d \<in> set rest. find (\<lambda>a. lower a = lower d) (x # xs) = Some d"
      using r(5) keys by auto
    ultimately show ?thesis using r(3) by blast
  next
    case False
    obtain rest where r: "dedup_loop lower xs (insert (lower x) seen) (deduped @ [x])
         = (deduped @ [x]) @ rest"
      "subseq rest xs" "distinct (map lower rest)"
      "lower ` set rest = lower ` set xs - insert (lower x) seen"
      "\<forall>d \<in> set rest. find (\<lambda>a. lower a = lower d) xs = Some d"
      using Cons.IH [of "insert (lower x) seen" "deduped @ [x]"] by blast
    have "\<forall>d \<in> set rest. lower d \<in> lower ` set xs - insert (lower x) seen"
      using r(4) by blast
    then have keys: "\<forall>d \<in> set rest. lower d \<noteq> lower x"
      by auto
    have "dedup_loop lower (x # xs) seen deduped = deduped @ (x # rest)"
      using False r(1) by simp
    moreover have "subseq (x # rest) (x # xs)" using r(2) by simp
    moreover have "distinct (map lower (x # rest))" using r(3) keys by auto
    moreover have "lower ` set (x # rest) = lower ` set (x # xs) - seen"
      using r(4) False by auto
    moreover have "\<forall>d \<in> set (x # rest). find (\<lambda>a. lower a = lower d) (x # xs) = Some d"
      using r(5) keys by auto
    ultimately show ?thesis by blast
  qed
qed

lemma deduplicate_addresses_spec:
  "subseq (deduplicate_addresses ops xs) xs
   \<and> distinct (map (str_lower ops) (deduplicate_addresses ops xs))
   \<and> str_lower ops ` set (deduplicate_addresses ops xs) = str_lower ops ` set xs
   \<and> (\<forall>d \<in> set (deduplicate_addresses ops xs).
         find (\<lambda>a. str_lower ops a = str_lower ops d) xs = Some d)"
  using dedup_loop_spec [of "str_lower ops" xs "{}" "[]"]
  by (auto simp: deduplicate_addresses_def)

lemma deduplicate_addresses_length:
  "xs \<noteq> [] \<Longrightarrow> 1 \<le> length (deduplicate_addresses ops xs)
     \<and> length (deduplicate_addresses ops xs) \<le> length xs"
proof -
  assume ne: "xs \<noteq> []"
  have s: "subseq (deduplicate_addresses ops xs) xs"
    and i: "str_lower ops ` set (deduplicate_addresses ops xs) = str_lower ops ` set xs"
    using deduplicate_addresses_spec [of ops xs] by simp_all
  have "set xs \<noteq> {}" using ne by simp
  then have "str_lower ops ` set xs \<noteq> {}" by simp
  then have "str_lower ops ` set (deduplicate_addresses ops xs) \<noteq> {}" by (simp add: i)
  then have "set (deduplicate_addresses ops xs) \<noteq> {}" by simp
  then have "deduplicate_addresses ops xs \<noteq> []" by simp
  then have "1 \<le> length (deduplicate_addresses ops xs)"
    by (cases "deduplicate_addresses ops xs") simp_all
  moreover have "length (deduplicate_addresses ops xs) \<le> length xs"
    using s by (rule list_emb_length)
  ultimately show ?thesis by simp
qed

lemma deduplicate_addresses_unique:
  assumes "a \<in> set xs"
  shows "\<exists>!d. d \<in> set (deduplicate_addresses ops xs) \<and> str_lower ops d = str_lower ops a"
proof -
  let ?ds = "deduplicate_addresses ops xs"
  have i: "str_lower ops ` set ?ds = str_lower ops ` set xs"
    and dist: "distinct (map (str_lower ops) ?ds)"
    using deduplicate_addresses_spec [of ops xs] by simp_all
  have "str_lower ops a \<in> str_lower ops ` set ?ds" using assms i by blast
  then obtain d where d: "d \<in> set ?ds" "str_lower ops d = str_lower ops a" by auto
  have inj: "inj_on (str_lower ops) (set ?ds)"
    using dist by (simp add: distinct_map)
  have "d' = d" if "d' \<in> set ?ds" "str_lower ops d' = str_lower ops a" for d'
  proof (rule inj_onD [OF inj _ that(1) d(1)])
    show "str_lower ops d' = str_lower ops d" using that(2) d(2) by simp
  qed
  then show ?thesis using d by blast
qed

lemma validate_request_addresses:
  assumes "validate_request ops body = Inr payload"
  shows "\<exists>given. body_addresses body = Some given
           \<and> addresses payload = map (strip ops) (filter (\<lambda>addr. strip ops addr \<noteq> []) given)
           \<and> addresses payload \<noteq> []
           \<and> length (addresses payload) \<le> 10"
proof -
  obtain a where a: "field_addresses ops (body_addresses body) = Inr a" "addresses payload = a"
    using assms by (auto simp: validate_request_def split: sum.splits)
  then obtain given where g: "body_addresses body = Some given" "validate_addresses ops given = Inr a"
    by (auto simp: field_addresses_def split: option.splits if_splits)
  let ?cleaned = "map (strip ops) (filter (\<lambda>addr. strip ops addr \<noteq> []) given)"
  have "a = ?cleaned \<and> ?cleaned \<noteq> [] \<and> length ?cleaned \<le> 10"
    using g(2) by (simp add: validate_addresses_def Let_def MAX_PARTICIPANTS_def split: if_splits)
  then show ?thesis using g(1) a(2) by simp
qed

lemma validate_request_max_minutes:
  assumes "validate_request ops body = Inr payload"
  shows "5 \<le> max_minutes payload \<and> max_minutes payload \<le> 60
         \<and> (case body_max_minutes body of None \<Rightarrow> max_minutes payload = 15
             | Some m \<Rightarrow> max_minutes payload = m)"
proof -
  obtain m where m: "field_max_minutes (body_max_minutes body) = Inr m" "max_minutes payload = m"
    using assms by (auto simp: validate_request_def split: sum.splits)
  then show ?thesis
    by (auto simp: field_max_minutes_def DEFAULT_MAX_MINUTES_def MAX_MAX_MINUTES_def
        split: option.splits if_splits)
qed


text \<open>
  C9, as the code has it. Of a valid request the addresses are the given ones with leading
  and trailing whitespace removed and the blank ones dropped; deduplication runs on them
  before any call is made: the deduplicated list has between 1 and 10 entries, keeps the
  order of the addresses, holds exactly one entry for every given address up to case and
  surrounding whitespace, and that entry is the first occurrence; the geocoding calls of
  the request are exactly the calls for the deduplicated addresses. Whitespace inside an
  address is kept, so addresses that differ there are different participants.
\<close>

theorem addresses_deduplicated_before_geocoding:
  assumes "validate_request ops body = Inr payload"
  shows "\<exists>given. body_addresses body = Some given
           \<and> addresses payload = map (strip ops) (filter (\<lambda>addr. strip ops addr \<noteq> []) given)
           \<and> 1 \<le> length (deduplicate_addresses ops (addresses payload))
           \<and> length (deduplicate_addresses ops (addresses payload)) \<le> 10
           \<and> subseq (deduplicate_addresses ops (addresses payload)) (addresses payload)
           \<and> (\<forall>a \<in> set given. strip ops a \<noteq> [] \<longrightarrow>
                 (\<exists>!d. d \<in> set (deduplicate_addresses ops (addresses payload))
                       \<and> str_lower ops d = str_lower ops (strip ops a)))
           \<and> (\<forall>d \<in> set (deduplicate_addresses ops (addresses payload)).
                 find (\<lambda>a. str_lower ops a = str_lower ops d) (addresses payload) = Some d)
           \<and> filter is_geocode_call (snd (post_meeting_point S M ops body))
               = (case mapbox_token M of
                    Inl e \<Rightarrow> []
                  | Inr token \<Rightarrow> map GeocodeCall (deduplicate_addresses ops (addresses payload)))"
proof -
  let ?ds = "deduplicate_addresses ops (addresses payload)"
  obtain given where g: "body_addresses body = Some given"
    "addresses payload = map (strip ops) (filter (\<lambda>addr. strip ops addr \<noteq> []) given)"
    "addresses payload \<noteq> []" "length (addresses payload) \<le> 10"
    using validate_request_addresses [OF assms] by blast
  have len: "1 \<le> length ?ds \<and> length ?ds \<le> length (addresses payload)"
    by (rule deduplicate_addresses_length [OF g(3)])
  have sub: "subseq ?ds (addresses payload)"
    and firsts: "\<forall>d \<in> set ?ds. find (\<lambda>a. str_lower ops a = str_lower ops d) (addresses payload) = Some d"
    using deduplicate_addresses_spec [of ops "addresses payload"] by simp_all
  have one: "\<forall>a \<in> set given. strip ops a \<noteq> [] \<longrightarrow>
               (\<exists>!d. d \<in> set ?ds \<and> str_lower ops d = str_lower ops (strip ops a))"
  proof (intro ballI impI)
    fix a assume "a \<in> set given" "strip ops a \<noteq> []"
    then have "strip ops a \<in> set (addresses payload)" unfolding g(2) by simp
    then show "\<exists>!d. d \<in> set ?ds \<and> str_lower ops d = str_lower ops (strip ops a)"
      by (rule deduplicate_addresses_unique)
  qed
  have calls: "filter is_geocode_call (snd (post_meeting_point S M ops body))
      = (case mapbox_token M of Inl e \<Rightarrow> [] | Inr token \<Rightarrow> map GeocodeCall ?ds)"
    using assms geocode_calls_meeting_point [of S M ops payload]
    by (simp add: post_meeting_point_def)
  show ?thesis
    using g(1,2,4) len sub one firsts calls by (intro exI [of _ given]) simp
qed


text \<open>
  C10. The accepted values of \<^verbatim>\<open>max_minutes\<close> are exactly 5 to 60: a request with a
  budget below 5 does not validate and is answered with the validation error before any
  call is made, and every valid request has a budget between 5 and 60.
\<close>

theorem max_minutes_accepted_from_5_to_60:
  "(field_max_minutes (Some m) = Inr m' \<longleftrightarrow> 5 \<le> m \<and> m \<le> 60 \<and> m' = m)
   \<and> (body_max_minutes body = Some m \<and> m < 5 \<longrightarrow>
        validate_request ops body = Inl RequestValidationError
        \<and> post_meeting_point S M ops body = (Inl RequestValidationError, []))
   \<and> (validate_request ops body = Inr payload \<longrightarrow>
        5 \<le> max_minutes payload \<and> max_minutes payload \<le> 60)"
proof (intro conjI impI)
  show "field_max_minutes (Some m) = Inr m' \<longleftrightarrow> 5 \<le> m \<and> m \<le> 60 \<and> m' = m"
    by (auto simp: field_max_minutes_def MAX_MAX_MINUTES_def)
next
  assume a: "body_max_minutes body = Some m \<and> m < 5"
  then have "field_max_minutes (body_max_minutes body) = Inl RequestValidationError"
    by (simp add: field_max_minutes_def)
  then show v: "validate_request ops body = Inl RequestValidationError"
    by (simp add: validate_request_def split: sum.splits)
  then show "post_meeting_point S M ops body = (Inl RequestValidationError, [])"
    by (simp add: post_meeting_point_def io_raise_def)
next
  assume "validate_request ops body = Inr payload"
  then show "5 \<le> max_minutes payload" "max_minutes payload \<le> 60"
    using validate_request_max_minutes [of ops body payload] by simp_all
qed


section \<open>The evaluation of the candidate\<close>



lemma map_eta_zip:
  assumes "length as = length bs" "length bs = length cs"
  shows "map (\<lambda>(address, coord, eta). eta) (zip as (zip bs cs)) = cs"
  using assms
proof (induction as bs arbitrary: cs rule: list_induct2)
  case Nil
  then show ?case by simp
next
  case (Cons a as b bs)
  then show ?case by (cases cs) simp_all
qed

lemma resolved_body:
  assumes "fst (meeting_point S M ops payload) = Inr (Body r)"
  shows "\<exists>token coords region eff ds v.
           mapbox_token M = Inr token
         \<and> length coords = length (deduplicate_addresses ops (addresses payload))
         \<and> coords \<noteq> []
         \<and> (eff = max_minutes payload \<or> eff = min MAX_MAX_MINUTES (max_minutes payload + 5))
         \<and> collect (map (\<lambda>coord. travel_time_seconds M coord (geom_centroid S region)
                                      (profile payload) token) coords) = Inr ds
         \<and> objective_value (map (\<lambda>d. float_round ops (d / 60) 1) ds) (objective payload) = Inr v
         \<and> r_meeting_point_lat r = snd (geom_centroid S region)
         \<and> r_meeting_point_lng r = fst (geom_centroid S region)
         \<and> r_participants r =
               map (\<lambda>(address, coord, eta).
                      \<lparr>p_address = address, p_lat = snd coord, p_lng = fst coord,
                       p_eta_minutes = eta\<rparr>)
                   (zip (deduplicate_addresses ops (addresses payload))
                        (zip coords (map (\<lambda>d. float_round ops (d / 60) 1) ds)))
         \<and> r_objective_value r = float_round ops v 2
         \<and> r_max_minutes r = eff
         \<and> r_reachable r
              = list_all (\<lambda>d. d \<le> of_int eff + 1 / 2) (map (\<lambda>d. float_round ops (d / 60) 1) ds)
         \<and> r_reason r = (if \<not> r_reachable r then Some ''travel_time_exceeds_budget'' else None)"
proof -
  let ?addrs = "deduplicate_addresses ops (addresses payload)"
  obtain token coords g region eff where
    t: "mapbox_token M = Inr token"
    and c: "collect (map (\<lambda>address. geocode_address M address (city_hint payload) token) ?addrs)
              = Inr coords"
    and ne: "?addrs \<noteq> []"
    and esc: "fst (escalate S M token payload coords) = Inr (g, eff)"
    and ev: "fst (evaluate S M ops token payload ?addrs coords region eff) = Inr (Body r)"
    using meeting_point_Body [OF assms] by blast
  have len: "length coords = length ?addrs"
    using collect_length [OF c] by simp
  then have cne: "coords \<noteq> []" using ne by auto
  have eff: "eff = max_minutes payload \<or> eff = min MAX_MAX_MINUTES (max_minutes payload + 5)"
    by (rule fst_compute_escalate [OF esc])
  obtain ds where ds: "collect (map (\<lambda>coord. travel_time_seconds M coord (geom_centroid S region)
                                      (profile payload) token) coords) = Inr ds"
    using ev unfolding fst_evaluate by (auto split: sum.splits)
  obtain v where v: "objective_value (map (\<lambda>d. float_round ops (d / 60) 1) ds) (objective payload) = Inr v"
    using ev unfolding fst_evaluate ds by (auto split: sum.splits)
  have r: "r = \<lparr>r_meeting_point_lat = snd (geom_centroid S region),
                    r_meeting_point_lng = fst (geom_centroid S region),
                    r_participants =
                      map (\<lambda>(address, coord, eta).
                             \<lparr>p_address = address, p_lat = snd coord, p_lng = fst coord,
                              p_eta_minutes = eta\<rparr>)
                          (zip ?addrs (zip coords (map (\<lambda>d. float_round ops (d / 60) 1) ds))),
                    r_objective = objective payload,
                    r_objective_value = float_round ops v 2,
                    r_max_minutes = eff,
                    r_reachable =
                      list_all (\<lambda>d. d \<le> of_int eff + 1 / 2) (map (\<lambda>d. float_round ops (d / 60) 1) ds),
                    r_reason =
                      (if \<not> list_all (\<lambda>d. d \<le> of_int eff + 1 / 2)
                                 (map (\<lambda>d. float_round ops (d / 60) 1) ds)
                       then Some ''travel_time_exceeds_budget'' else None),
                    r_debug_intersection_polygons = region\<rparr>"
    using ev by (simp add: fst_evaluate ds v del: One_nat_def)
  show ?thesis
    apply (rule exI [of _ token], rule exI [of _ coords], rule exI [of _ region],
        rule exI [of _ eff], rule exI [of _ ds], rule exI [of _ v])
    using t len cne eff ds v by (simp add: r del: One_nat_def)
qed

lemma participants_etas:
  assumes "length addrs = length coords" "length coords = length etas"
  shows "map p_eta_minutes
           (map (\<lambda>(address, coord, eta).
                   \<lparr>p_address = address, p_lat = snd coord, p_lng = fst coord,
                    p_eta_minutes = eta\<rparr>)
                (zip addrs (zip coords etas))) = etas"
proof -
  have "map p_eta_minutes
           (map (\<lambda>(address, coord, eta).
                   \<lparr>p_address = address, p_lat = snd coord, p_lng = fst coord,
                    p_eta_minutes = eta\<rparr>)
                (zip addrs (zip coords etas)))
        = map (\<lambda>(address, coord, eta). eta) (zip addrs (zip coords etas))"
    by (simp add: comp_def case_prod_beta)
  then show ?thesis using map_eta_zip [OF assms] by simp
qed



text \<open>
  C3. For every resolved candidate the verdict \<^verbatim>\<open>reachable\<close> is true if and only if
  every participant's travel time in minutes (the reported \<^verbatim>\<open>eta_minutes\<close>) is at most
  the effective budget plus one half; the effective budget is the requested one or the
  bumped one; when the verdict is false the reason is \<^verbatim>\<open>travel_time_exceeds_budget\<close>,
  which is not \<^verbatim>\<open>no_common_reachable_region\<close>, and in either case the objective
  value is computed from the travel times and returned.
\<close>

theorem reachable_iff_every_eta_within_budget:
  assumes "meeting_point S M ops payload = (Inr (Body r), calls)"
  shows "(r_reachable r \<longleftrightarrow>
            (\<forall>p \<in> set (r_participants r). p_eta_minutes p \<le> of_int (r_max_minutes r) + 1 / 2))
         \<and> (r_max_minutes r = max_minutes payload
              \<or> r_max_minutes r = min MAX_MAX_MINUTES (max_minutes payload + 5))
         \<and> r_reason r = (if r_reachable r then None else Some ''travel_time_exceeds_budget'')
         \<and> ''travel_time_exceeds_budget'' \<noteq> ''no_common_reachable_region''
         \<and> (\<exists>v. objective_value (map p_eta_minutes (r_participants r)) (objective payload) = Inr v
                \<and> r_objective_value r = float_round ops v 2)"
proof -
  let ?addrs = "deduplicate_addresses ops (addresses payload)"
  have f: "fst (meeting_point S M ops payload) = Inr (Body r)" using assms by simp
  obtain token coords region eff ds v where
    len: "length coords = length ?addrs"
    and eff: "eff = max_minutes payload \<or> eff = min MAX_MAX_MINUTES (max_minutes payload + 5)"
    and ds: "collect (map (\<lambda>coord. travel_time_seconds M coord (geom_centroid S region)
                                      (profile payload) token) coords) = Inr ds"
    and v: "objective_value (map (\<lambda>d. float_round ops (d / 60) 1) ds) (objective payload) = Inr v"
    and parts: "r_participants r =
               map (\<lambda>(address, coord, eta).
                      \<lparr>p_address = address, p_lat = snd coord, p_lng = fst coord,
                       p_eta_minutes = eta\<rparr>)
                   (zip ?addrs (zip coords (map (\<lambda>d. float_round ops (d / 60) 1) ds)))"
    and ov: "r_objective_value r = float_round ops v 2"
    and mm: "r_max_minutes r = eff"
    and reach: "r_reachable r
              = list_all (\<lambda>d. d \<le> of_int eff + 1 / 2) (map (\<lambda>d. float_round ops (d / 60) 1) ds)"
    and reason: "r_reason r = (if \<not> r_reachable r then Some ''travel_time_exceeds_budget'' else None)"
    using resolved_body [OF f] by blast
  define etas where "etas = map (\<lambda>d. float_round ops (d / 60) 1) ds"
  have lds: "length coords = length etas"
    using collect_length [OF ds] by (simp add: etas_def)
  have etas: "map p_eta_minutes (r_participants r) = etas"
    unfolding parts etas_def [symmetric]
    by (rule participants_etas [OF len [symmetric] lds])
  have "r_reachable r \<longleftrightarrow> (\<forall>d \<in> set etas. d \<le> of_int eff + 1 / 2)"
    unfolding reach etas_def [symmetric] by (simp add: list_all_iff)
  also have "\<dots> \<longleftrightarrow> (\<forall>d \<in> set (map p_eta_minutes (r_participants r)). d \<le> of_int eff + 1 / 2)"
    by (simp only: etas)
  also have "\<dots> \<longleftrightarrow> (\<forall>p \<in> set (r_participants r). p_eta_minutes p \<le> of_int (r_max_minutes r) + 1 / 2)"
    by (simp add: mm)
  finally have verdict: "r_reachable r \<longleftrightarrow>
      (\<forall>p \<in> set (r_participants r). p_eta_minutes p \<le> of_int (r_max_minutes r) + 1 / 2)" .
  have obj: "objective_value (map p_eta_minutes (r_participants r)) (objective payload) = Inr v"
    unfolding etas using v by (simp only: etas_def)
  show ?thesis
    using verdict eff mm reason obj ov by auto
qed






section \<open>The escalation of the budget\<close>

text \<open>
  The escalation as the code performs it (lines 295 to 308), on the raw intersection. Let
  the intersection of the regions fetched at the requested budget be empty. At a
  budget of 60 (not below the ceiling) the answer is \<^verbatim>\<open>no_common_reachable_region\<close>
  with the requested budget, and nothing is fetched again. Below 60 the budget is raised
  by 5, capped at 60; the isochrone calls of the request are then exactly one per
  participant at the requested budget followed by one per participant at the raised
  budget, whatever happens afterwards, so there is no second escalation; and when the
  intersection at the raised budget is empty as well, the answer is
  \<^verbatim>\<open>no_common_reachable_region\<close> with the raised budget.
\<close>

lemma raw_empty_intersection_escalates_once:
  assumes tok: "mapbox_token M = Inr token"
    and ne: "deduplicate_addresses ops (addresses payload) \<noteq> []"
    and geo: "collect (map (\<lambda>address. geocode_address M address (city_hint payload) token)
                     (deduplicate_addresses ops (addresses payload))) = Inr coords"
    and first: "fst (compute_with_minutes S M token payload coords (max_minutes payload)) = Inr g"
    and empty: "geom_is_empty S g"
  shows "(\<not> max_minutes payload < 60 \<longrightarrow>
            meeting_point S M ops payload
              = (Inr (JSONResponse False ''no_common_reachable_region'' (max_minutes payload)),
                 map GeocodeCall (deduplicate_addresses ops (addresses payload))
                 @ map (\<lambda>coord. IsochroneCall coord (max_minutes payload)) coords))
         \<and> (max_minutes payload < 60 \<longrightarrow>
              filter is_isochrone_call (snd (meeting_point S M ops payload))
                = map (\<lambda>coord. IsochroneCall coord (max_minutes payload)) coords
                  @ map (\<lambda>coord. IsochroneCall coord (min 60 (max_minutes payload + 5))) coords
              \<and> (\<forall>g'. fst (compute_with_minutes S M token payload coords
                                 (min 60 (max_minutes payload + 5))) = Inr g'
                        \<and> geom_is_empty S g' \<longrightarrow>
                    meeting_point S M ops payload
                      = (Inr (JSONResponse False ''no_common_reachable_region''
                                (min 60 (max_minutes payload + 5))),
                         map GeocodeCall (deduplicate_addresses ops (addresses payload))
                         @ map (\<lambda>coord. IsochroneCall coord (max_minutes payload)) coords
                         @ map (\<lambda>coord. IsochroneCall coord (min 60 (max_minutes payload + 5)))
                             coords)))"
proof (intro conjI impI allI)
  assume top: "\<not> max_minutes payload < 60"
  have e: "fst (escalate S M token payload coords) = Inr (g, max_minutes payload)"
    using first top by (simp add: fst_escalate MAX_MAX_MINUTES_def)
  have s: "snd (escalate S M token payload coords)
             = map (\<lambda>coord. IsochroneCall coord (max_minutes payload)) coords"
    using first top by (simp add: snd_escalate MAX_MAX_MINUTES_def)
  have "fst (meeting_point S M ops payload)
          = Inr (JSONResponse False ''no_common_reachable_region'' (max_minutes payload))"
    using empty by (simp add: meeting_point_unfold(1) [OF tok ne geo] e)
  moreover have "snd (meeting_point S M ops payload)
          = map GeocodeCall (deduplicate_addresses ops (addresses payload))
            @ map (\<lambda>coord. IsochroneCall coord (max_minutes payload)) coords"
    using empty by (simp add: meeting_point_unfold(2) [OF tok ne geo] e s)
  ultimately show "meeting_point S M ops payload
      = (Inr (JSONResponse False ''no_common_reachable_region'' (max_minutes payload)),
         map GeocodeCall (deduplicate_addresses ops (addresses payload))
         @ map (\<lambda>coord. IsochroneCall coord (max_minutes payload)) coords)"
    by (simp add: prod_eq_iff)
next
  assume below: "max_minutes payload < 60"
  have s: "snd (escalate S M token payload coords)
             = map (\<lambda>coord. IsochroneCall coord (max_minutes payload)) coords
               @ map (\<lambda>coord. IsochroneCall coord (min 60 (max_minutes payload + 5))) coords"
    using first empty below by (simp add: snd_escalate MAX_MAX_MINUTES_def)
  show "filter is_isochrone_call (snd (meeting_point S M ops payload))
          = map (\<lambda>coord. IsochroneCall coord (max_minutes payload)) coords
            @ map (\<lambda>coord. IsochroneCall coord (min 60 (max_minutes payload + 5))) coords"
    by (simp add: meeting_point_unfold(2) [OF tok ne geo] s filter_isochrone_simps
        split: sum.splits prod.splits)
next
  fix g'
  assume below: "max_minutes payload < 60"
    and retry: "fst (compute_with_minutes S M token payload coords
                       (min 60 (max_minutes payload + 5))) = Inr g' \<and> geom_is_empty S g'"
  have e: "fst (escalate S M token payload coords) = Inr (g', min 60 (max_minutes payload + 5))"
    using first empty below retry by (simp add: fst_escalate MAX_MAX_MINUTES_def)
  have s: "snd (escalate S M token payload coords)
             = map (\<lambda>coord. IsochroneCall coord (max_minutes payload)) coords
               @ map (\<lambda>coord. IsochroneCall coord (min 60 (max_minutes payload + 5))) coords"
    using first empty below by (simp add: snd_escalate MAX_MAX_MINUTES_def)
  have "fst (meeting_point S M ops payload)
          = Inr (JSONResponse False ''no_common_reachable_region''
                   (min 60 (max_minutes payload + 5)))"
    using retry by (simp add: meeting_point_unfold(1) [OF tok ne geo] e)
  moreover have "snd (meeting_point S M ops payload)
          = map GeocodeCall (deduplicate_addresses ops (addresses payload))
            @ map (\<lambda>coord. IsochroneCall coord (max_minutes payload)) coords
            @ map (\<lambda>coord. IsochroneCall coord (min 60 (max_minutes payload + 5))) coords"
    using retry by (simp add: meeting_point_unfold(2) [OF tok ne geo] e s)
  ultimately show "meeting_point S M ops payload
      = (Inr (JSONResponse False ''no_common_reachable_region''
                (min 60 (max_minutes payload + 5))),
         map GeocodeCall (deduplicate_addresses ops (addresses payload))
         @ map (\<lambda>coord. IsochroneCall coord (max_minutes payload)) coords
         @ map (\<lambda>coord. IsochroneCall coord (min 60 (max_minutes payload + 5))) coords)"
    by (simp add: prod_eq_iff)
qed


section \<open>The concrete library satisfies what is assumed of the library\<close>

lemma grid_is_polygonal_iff:
  "is_polygonal grid_shapely (Grid w s e f) \<longleftrightarrow> (s \<longrightarrow> w \<or> e)"
  by (cases w; cases s; cases e; cases f; simp add: is_polygonal_def grid_shapely_def)

lemma grid_union_polygonal:
  assumes "is_polygonal grid_shapely a" "is_polygonal grid_shapely b"
  shows "is_polygonal grid_shapely (geom_union grid_shapely a b)"
proof -
  obtain w s e f where a: "a = Grid w s e f" by (cases a)
  obtain w' s' e' f' where b: "b = Grid w' s' e' f'" by (cases b)
  have "geom_union grid_shapely a b = Grid (w \<or> w') (s \<or> s') (e \<or> e') (f \<or> f')"
    by (simp add: a b grid_shapely_def)
  then show ?thesis
    using assms unfolding a b by (auto simp: grid_is_polygonal_iff)
qed

lemma grid_multipolygon_members:
  assumes "geom_class grid_shapely g = MultiPolygon" "p \<in> set (geom_geoms grid_shapely g)"
  shows "geom_class grid_shapely p = Polygon"
proof -
  obtain w s e f where g: "g = Grid w s e f" by (cases g)
  have m: "(w \<or> e) \<and> f"
    using assms(1) unfolding g by (simp add: grid_shapely_def split: if_splits)
  then have "p = Grid w s e False \<or> p = Grid False False False True"
    using assms(2) unfolding g by (simp add: grid_shapely_def)
  then show ?thesis using m by (auto simp: grid_shapely_def)
qed

lemma grid_shapely_classes: "shapely_classes grid_shapely"
  unfolding shapely_classes_def
  using grid_union_polygonal grid_multipolygon_members
  by (auto simp: grid_shapely_def)


lemma grid_intersection_laws: "intersection_laws grid_shapely"
proof -
  have c: "grid_intersection a b = grid_intersection b a" for a b
    by (cases a; cases b) auto
  have a: "grid_intersection (grid_intersection a b) c = grid_intersection a (grid_intersection b c)"
    for a b c
    by (cases a; cases b; cases c) auto
  show ?thesis
    unfolding intersection_laws_def
  proof (intro conjI allI)
    fix x y
    show "geom_intersection grid_shapely x y = geom_intersection grid_shapely y x"
      using c [of x y] by (simp add: grid_shapely_def)
  next
    fix x y z
    show "geom_intersection grid_shapely (geom_intersection grid_shapely x y) z
            = geom_intersection grid_shapely x (geom_intersection grid_shapely y z)"
      using a [of x y z] by (simp add: grid_shapely_def)
  qed
qed







section \<open>The properties at concrete inputs\<close>

lemmas run_defs =
  meeting_point_def io_bind_def io_of_def io_return_def io_raise_def gather_def
  mapbox_token_def fake_mapbox_def request_for_def deduplicate_addresses_def ascii_ops_def
  ascii_lower_def escalate_def compute_with_minutes_def intersection_def grid_shapely_def
  polygonal_region_def is_polygonal_def largest_component_def py_max_def evaluate_def
  objective_value_def decimal_round_def round_half_even_def MAX_MAX_MINUTES_def
  unit_box_def east_box_def wide_box_def far_box_def
  ten_minutes_def second_is_late_def uneven_seconds_def

lemma decimal_round_examples:
  "decimal_round (600 / 60) 1 = 10" "decimal_round (1200 / 60) 1 = 20" "decimal_round 20 2 = 20"
  "decimal_round (940 / 60) 1 = 157 / 10" "decimal_round (1 / 4) 1 = 1 / 5" "decimal_round (3 / 4) 1 = 4 / 5"
  by (simp_all add: decimal_round_def round_half_even_def)

lemma fake_token: "mapbox_token (fake_mapbox isochrones secs) = Inr ''test-token''"
  by (simp add: mapbox_token_def fake_mapbox_def)

lemma two_addresses:
  "deduplicate_addresses ascii_ops (addresses (request_for [''A st'', ''Bee st''] m obj))
     = [''A st'', ''Bee st'']"
  by (simp add: request_for_def deduplicate_addresses_def ascii_ops_def ascii_lower_def)

lemma two_coordinates:
  "collect (map (\<lambda>address. geocode_address (fake_mapbox isochrones secs) address
                                (city_hint (request_for [''A st'', ''Bee st''] m obj)) ''test-token'')
                [''A st'', ''Bee st'']) = Inr [(4, 0), (6, 0)]"
  by (simp add: fake_mapbox_def)

lemma disjoint_region_empty:
  "fst (compute_with_minutes grid_shapely (fake_mapbox disjoint_iso secs) ''test-token''
          (request_for [''A st'', ''Bee st''] m obj) [(4, 0), (6, 0)] minutes)
     = Inr (Grid False False False False)"
  by (simp add: compute_with_minutes_def io_bind_def io_of_def gather_def fake_mapbox_def
      intersection_def disjoint_iso_def grid_shapely_def unit_box_def far_box_def)

lemma late_run:
  "meeting_point grid_shapely (fake_mapbox shared_iso second_is_late)
       ascii_ops (request_for [''A st'', ''Bee st''] 15 ''min_max'')
     = (Inr (Body
          \<lparr>r_meeting_point_lat = 1 / 2, r_meeting_point_lng = 1 / 2,
           r_participants =
             [\<lparr>p_address = ''A st'', p_lat = 0, p_lng = 4, p_eta_minutes = 10\<rparr>,
              \<lparr>p_address = ''Bee st'', p_lat = 0, p_lng = 6, p_eta_minutes = 20\<rparr>],
           r_objective = ''min_max'', r_objective_value = 20, r_max_minutes = 15,
           r_reachable = False, r_reason = Some ''travel_time_exceeds_budget'',
           r_debug_intersection_polygons = unit_box\<rparr>),
        [GeocodeCall ''A st'', GeocodeCall ''Bee st'',
         IsochroneCall (4, 0) 15, IsochroneCall (6, 0) 15,
         DirectionsCall (4, 0) (1 / 2, 1 / 2), DirectionsCall (6, 0) (1 / 2, 1 / 2)])"
  by (simp add: shared_iso_def run_defs Let_def)

lemma test_suite_run:
  "meeting_point grid_shapely (fake_mapbox shared_iso ten_minutes)
       ascii_ops (request_for [''A st'', ''Bee st''] 15 ''min_sum'')
     = (Inr (Body
          \<lparr>r_meeting_point_lat = 1 / 2, r_meeting_point_lng = 1 / 2,
           r_participants =
             [\<lparr>p_address = ''A st'', p_lat = 0, p_lng = 4, p_eta_minutes = 10\<rparr>,
              \<lparr>p_address = ''Bee st'', p_lat = 0, p_lng = 6, p_eta_minutes = 10\<rparr>],
           r_objective = ''min_sum'', r_objective_value = 20, r_max_minutes = 15,
           r_reachable = True, r_reason = None,
           r_debug_intersection_polygons = unit_box\<rparr>),
        [GeocodeCall ''A st'', GeocodeCall ''Bee st'',
         IsochroneCall (4, 0) 15, IsochroneCall (6, 0) 15,
         DirectionsCall (4, 0) (1 / 2, 1 / 2), DirectionsCall (6, 0) (1 / 2, 1 / 2)])"
  by (simp add: shared_iso_def run_defs Let_def)



theorem normalized_intersection_permutation_invariant_witness:
  "normalized_intersection grid_shapely [far_box, wide_box, Grid True True False True]
     = normalized_intersection grid_shapely [Grid True True False True, far_box, wide_box]
   \<and> normalized_intersection grid_shapely [wide_box, Grid True True False True, unit_box] = Inr unit_box
   \<and> normalized_intersection grid_shapely [unit_box, wide_box, Grid True True False True] = Inr unit_box"
proof -
  have n: "[Grid True True False True, far_box, wide_box] \<noteq> []" by simp
  have m: "mset [Grid True True False True, far_box, wide_box]
             = mset [far_box, wide_box, Grid True True False True]"
    by simp
  have n': "[unit_box, wide_box, Grid True True False True] \<noteq> []" by simp
  have m': "mset [unit_box, wide_box, Grid True True False True]
             = mset [wide_box, Grid True True False True, unit_box]"
    by simp
  have v: "normalized_intersection grid_shapely [unit_box, wide_box, Grid True True False True]
             = Inr unit_box"
    by (simp add: normalized_intersection_def intersection_def polygonal_region_def
        is_polygonal_def largest_component_def grid_shapely_def unit_box_def wide_box_def)
  from normalized_intersection_permutation_invariant [OF grid_intersection_laws n m]
       normalized_intersection_permutation_invariant [OF grid_intersection_laws n' m'] v
  show ?thesis by simp
qed


theorem polygonal_region_idempotent_witness:
  "polygonal_region grid_shapely (Grid False True False True) = Inr far_box
   \<and> polygonal_region grid_shapely far_box = Inr far_box
   \<and> polygonal_region grid_shapely (Grid True True False True) = Inr far_box
   \<and> polygonal_region grid_shapely unit_box = Inr unit_box"
proof -
  have a: "polygonal_region grid_shapely (Grid False True False True) = Inr far_box"
    by (simp add: polygonal_region_def is_polygonal_def largest_component_def py_max_def
        grid_shapely_def far_box_def)
  have b: "polygonal_region grid_shapely (Grid True True False True) = Inr far_box"
    by (simp add: polygonal_region_def is_polygonal_def largest_component_def py_max_def
        grid_shapely_def far_box_def)
  have c: "geom_class grid_shapely unit_box = Polygon"
    by (simp add: grid_shapely_def unit_box_def)
  from polygonal_region_idempotent [OF grid_shapely_classes, of "Grid False True False True"]
       polygonal_region_idempotent [OF grid_shapely_classes, of unit_box] a b c
  show ?thesis by simp
qed

text \<open>
  C1 at a concrete request. Two participants ask for 15 minutes. Below 20 minutes their
  regions are the boxes \<open>[0,1] \<times> [0,1]\<close> and \<open>[1,2] \<times> [0,1]\<close>, which share one side;
  from 20 minutes on both regions are \<open>[0,2] \<times> [0,1]\<close>. The normalized feasible region
  at 15 minutes is empty and the budget is below the ceiling, the normalized feasible
  region at 20 minutes is not empty, and yet the answer is
  \<^verbatim>\<open>no_common_reachable_region\<close> at 15 minutes with no isochrone fetched at 20: the
  test that decides the escalation (line 295) reads the raw intersection, a line, which
  is not empty.
\<close>

theorem touching_regions_reported_without_escalation:
  "normalized_intersection grid_shapely [touching_iso (4, 0) 15, touching_iso (6, 0) 15]
     = Inr (Grid False False False False)
   \<and> grid_is_empty (Grid False False False False)
   \<and> (15 :: int) < MAX_MAX_MINUTES
   \<and> normalized_intersection grid_shapely [touching_iso (4, 0) 20, touching_iso (6, 0) 20]
       = Inr wide_box
   \<and> \<not> grid_is_empty wide_box
   \<and> meeting_point grid_shapely (fake_mapbox touching_iso ten_minutes) ascii_ops
         (request_for [''A st'', ''Bee st''] 15 ''min_sum'')
       = (Inr (JSONResponse False ''no_common_reachable_region'' 15),
          [GeocodeCall ''A st'', GeocodeCall ''Bee st'',
           IsochroneCall (4, 0) 15, IsochroneCall (6, 0) 15])"
proof (intro conjI)
  show "normalized_intersection grid_shapely [touching_iso (4, 0) 15, touching_iso (6, 0) 15]
          = Inr (Grid False False False False)"
    by (simp add: normalized_intersection_def touching_iso_def run_defs)
  show "normalized_intersection grid_shapely [touching_iso (4, 0) 20, touching_iso (6, 0) 20]
          = Inr wide_box"
    by (simp add: normalized_intersection_def touching_iso_def run_defs)
  show "meeting_point grid_shapely (fake_mapbox touching_iso ten_minutes) ascii_ops
         (request_for [''A st'', ''Bee st''] 15 ''min_sum'')
       = (Inr (JSONResponse False ''no_common_reachable_region'' 15),
          [GeocodeCall ''A st'', GeocodeCall ''Bee st'',
           IsochroneCall (4, 0) 15, IsochroneCall (6, 0) 15])"
    by (simp add: touching_iso_def run_defs)
qed (simp_all add: MAX_MAX_MINUTES_def wide_box_def)


text \<open>
  C9 as it is worded fails: two addresses that differ only by whitespace, two spaces
  for one inside the address, stay two participants and are geocoded twice.
\<close>

theorem whitespace_inside_not_collapsed:
  "differ_only_by_case_or_whitespace ascii_ops ''a b'' ''a  b''
   \<and> validate_request ascii_ops (body_for [''a b'', ''a  b''] 15)
       = Inr (request_for [''a b'', ''a  b''] 15 ''min_sum'')
   \<and> deduplicate_addresses ascii_ops [''a b'', ''a  b''] = [''a b'', ''a  b'']
   \<and> filter is_geocode_call
         (snd (post_meeting_point grid_shapely (fake_mapbox shared_iso ten_minutes) ascii_ops
                 (body_for [''a b'', ''a  b''] 15)))
       = [GeocodeCall ''a b'', GeocodeCall ''a  b'']"
proof -
  have a: "differ_only_by_case_or_whitespace ascii_ops ''a b'' ''a  b''"
    by (simp add: differ_only_by_case_or_whitespace_def ascii_ops_def ascii_isspace_def)
  have v: "validate_request ascii_ops (body_for [''a b'', ''a  b''] 15)
             = Inr (request_for [''a b'', ''a  b''] 15 ''min_sum'')"
    by (simp add: validate_request_def body_for_def request_for_def field_addresses_def
        field_profile_def field_max_minutes_def field_objective_def field_grid_resolution_m_def
        validate_addresses_def strip_def ascii_ops_def ascii_isspace_def
        MAX_PARTICIPANTS_def MAX_MAX_MINUTES_def)
  have d: "deduplicate_addresses ascii_ops [''a b'', ''a  b''] = [''a b'', ''a  b'']"
    by (simp add: deduplicate_addresses_def ascii_ops_def ascii_lower_def)
  have t: "mapbox_token (fake_mapbox shared_iso ten_minutes) = Inr ''test-token''"
    by (simp add: mapbox_token_def fake_mapbox_def)
  have "filter is_geocode_call
         (snd (post_meeting_point grid_shapely (fake_mapbox shared_iso ten_minutes) ascii_ops
                 (body_for [''a b'', ''a  b''] 15)))
       = [GeocodeCall ''a b'', GeocodeCall ''a  b'']"
    using geocode_calls_meeting_point [of grid_shapely "fake_mapbox shared_iso ten_minutes" ascii_ops
        "request_for [''a b'', ''a  b''] 15 ''min_sum''"]
    by (simp add: post_meeting_point_def v t d request_for_def)
  then show ?thesis using a v d by simp
qed


theorem addresses_deduplicated_before_geocoding_witness:
  "validate_request ascii_ops (body_for ['' A St '', ''a st'', ''    '', ''B st''] 15)
       = Inr (request_for [''A St'', ''a st'', ''B st''] 15 ''min_sum'')
   \<and> deduplicate_addresses ascii_ops [''A St'', ''a st'', ''B st''] = [''A St'', ''B st'']
   \<and> filter is_geocode_call
         (snd (post_meeting_point grid_shapely (fake_mapbox shared_iso ten_minutes) ascii_ops
                 (body_for ['' A St '', ''a st'', ''    '', ''B st''] 15)))
       = [GeocodeCall ''A St'', GeocodeCall ''B st'']"
proof -
  have v: "validate_request ascii_ops (body_for ['' A St '', ''a st'', ''    '', ''B st''] 15)
             = Inr (request_for [''A St'', ''a st'', ''B st''] 15 ''min_sum'')"
    by (simp add: validate_request_def body_for_def request_for_def field_addresses_def
        field_profile_def field_max_minutes_def field_objective_def field_grid_resolution_m_def
        validate_addresses_def strip_def ascii_ops_def ascii_isspace_def
        MAX_PARTICIPANTS_def MAX_MAX_MINUTES_def)
  have d: "deduplicate_addresses ascii_ops [''A St'', ''a st'', ''B st''] = [''A St'', ''B st'']"
    by (simp add: deduplicate_addresses_def ascii_ops_def ascii_lower_def)
  have t: "mapbox_token (fake_mapbox shared_iso ten_minutes) = Inr ''test-token''"
    by (simp add: mapbox_token_def fake_mapbox_def)
  have p: "addresses (request_for [''A St'', ''a st'', ''B st''] 15 ''min_sum'')
             = [''A St'', ''a st'', ''B st'']"
    by (simp add: request_for_def)
  from addresses_deduplicated_before_geocoding [OF v, of grid_shapely "fake_mapbox shared_iso ten_minutes"]
  have "filter is_geocode_call
         (snd (post_meeting_point grid_shapely (fake_mapbox shared_iso ten_minutes) ascii_ops
                 (body_for ['' A St '', ''a st'', ''    '', ''B st''] 15)))
       = map GeocodeCall (deduplicate_addresses ascii_ops [''A St'', ''a st'', ''B st''])"
    unfolding p t by auto
  then show ?thesis using v d by simp
qed

theorem max_minutes_accepted_from_5_to_60_witness:
  "post_meeting_point grid_shapely (fake_mapbox shared_iso ten_minutes) ascii_ops
       (body_for [''A st'', ''Bee st''] 4) = (Inl RequestValidationError, [])
   \<and> field_max_minutes (Some 5) = Inr 5
   \<and> field_max_minutes (Some 60) = Inr 60
   \<and> field_max_minutes (Some 61) = Inl RequestValidationError"
proof -
  have b: "body_max_minutes (body_for [''A st'', ''Bee st''] 4) = Some 4 \<and> (4::int) < 5"
    by (simp add: body_for_def)
  have c: "field_max_minutes (Some 61) = Inl RequestValidationError"
    by (simp add: field_max_minutes_def MAX_MAX_MINUTES_def)
  from max_minutes_accepted_from_5_to_60 [of 4 4 "body_for [''A st'', ''Bee st''] 4" ascii_ops
      grid_shapely "fake_mapbox shared_iso ten_minutes"]
    max_minutes_accepted_from_5_to_60 [of 5 5] max_minutes_accepted_from_5_to_60 [of 60 60] b c
  show ?thesis by simp
qed

lemma disjoint_regions_escalate_once:
  "meeting_point grid_shapely (fake_mapbox disjoint_iso ten_minutes) ascii_ops
         (request_for [''A st'', ''Bee st''] 15 ''min_sum'')
       = (Inr (JSONResponse False ''no_common_reachable_region'' 20),
          [GeocodeCall ''A st'', GeocodeCall ''Bee st'',
           IsochroneCall (4, 0) 15, IsochroneCall (6, 0) 15,
           IsochroneCall (4, 0) 20, IsochroneCall (6, 0) 20])
   \<and> meeting_point grid_shapely (fake_mapbox disjoint_iso ten_minutes) ascii_ops
         (request_for [''A st'', ''Bee st''] 60 ''min_sum'')
       = (Inr (JSONResponse False ''no_common_reachable_region'' 60),
          [GeocodeCall ''A st'', GeocodeCall ''Bee st'',
           IsochroneCall (4, 0) 60, IsochroneCall (6, 0) 60])
   \<and> meeting_point grid_shapely (fake_mapbox disjoint_iso ten_minutes) ascii_ops
         (request_for [''A st'', ''Bee st''] 58 ''min_sum'')
       = (Inr (JSONResponse False ''no_common_reachable_region'' 60),
          [GeocodeCall ''A st'', GeocodeCall ''Bee st'',
           IsochroneCall (4, 0) 58, IsochroneCall (6, 0) 58,
           IsochroneCall (4, 0) 60, IsochroneCall (6, 0) 60])"
proof -
  let ?M = "fake_mapbox disjoint_iso ten_minutes"
  have ne: "deduplicate_addresses ascii_ops (addresses (request_for [''A st'', ''Bee st''] m obj)) \<noteq> []"
    for m obj by (simp add: two_addresses)
  have geo: "collect (map (\<lambda>address. geocode_address ?M address
                 (city_hint (request_for [''A st'', ''Bee st''] m obj)) ''test-token'')
               (deduplicate_addresses ascii_ops (addresses (request_for [''A st'', ''Bee st''] m obj))))
             = Inr [(4, 0), (6, 0)]" for m obj
    unfolding two_addresses by (rule two_coordinates)
  have e: "geom_is_empty grid_shapely (Grid False False False False)"
    by (simp add: grid_shapely_def)
  have mm: "max_minutes (request_for [''A st'', ''Bee st''] m obj) = m" for m obj
    by (simp add: request_for_def)
  note t = raw_empty_intersection_escalates_once [OF fake_token ne geo disjoint_region_empty e]
  show ?thesis
    using t [of 15 "''min_sum''"] t [of 60 "''min_sum''"] t [of 58 "''min_sum''"]
    by (simp add: mm two_addresses disjoint_region_empty e)
qed

theorem reachable_iff_every_eta_within_budget_witness:
  "(\<exists>r calls.
      meeting_point grid_shapely (fake_mapbox shared_iso second_is_late)
          ascii_ops (request_for [''A st'', ''Bee st''] 15 ''min_max'') = (Inr (Body r), calls)
      \<and> map p_eta_minutes (r_participants r) = [10, 20]
      \<and> r_max_minutes r = 15
      \<and> \<not> r_reachable r
      \<and> r_reason r = Some ''travel_time_exceeds_budget''
      \<and> r_objective_value r = 20)
   \<and> (\<exists>r calls.
      meeting_point grid_shapely (fake_mapbox shared_iso ten_minutes)
          ascii_ops (request_for [''A st'', ''Bee st''] 15 ''min_sum'') = (Inr (Body r), calls)
      \<and> map p_eta_minutes (r_participants r) = [10, 10]
      \<and> r_reachable r
      \<and> r_reason r = None)"
  using reachable_iff_every_eta_within_budget [OF late_run]
    reachable_iff_every_eta_within_budget [OF test_suite_run]
  by (simp add: late_run test_suite_run)


text \<open>
  C2 at the same request as C1. The normalized feasible region at 15 minutes is empty and
  15 is below 60, so the budget should become 20 and the regions be fetched again. The
  answer is \<^verbatim>\<open>no_common_reachable_region\<close> with the budget 15 after the two fetches at
  15 minutes only. With regions that do not touch at all the same request is retried at
  20 minutes and answered with the budget 20.
\<close>

theorem touching_regions_keep_the_requested_budget:
  "normalized_intersection grid_shapely [touching_iso (4, 0) 15, touching_iso (6, 0) 15]
     = Inr (Grid False False False False)
   \<and> grid_is_empty (Grid False False False False)
   \<and> (15 :: int) < 60
   \<and> min 60 (15 + 5) = (20 :: int)
   \<and> fst (meeting_point grid_shapely (fake_mapbox touching_iso ten_minutes) ascii_ops
              (request_for [''A st'', ''Bee st''] 15 ''min_sum''))
       = Inr (JSONResponse False ''no_common_reachable_region'' 15)
   \<and> filter is_isochrone_call
         (snd (meeting_point grid_shapely (fake_mapbox touching_iso ten_minutes) ascii_ops
                 (request_for [''A st'', ''Bee st''] 15 ''min_sum'')))
       = [IsochroneCall (4, 0) 15, IsochroneCall (6, 0) 15]
   \<and> meeting_point grid_shapely (fake_mapbox disjoint_iso ten_minutes) ascii_ops
         (request_for [''A st'', ''Bee st''] 15 ''min_sum'')
       = (Inr (JSONResponse False ''no_common_reachable_region'' 20),
          [GeocodeCall ''A st'', GeocodeCall ''Bee st'',
           IsochroneCall (4, 0) 15, IsochroneCall (6, 0) 15,
           IsochroneCall (4, 0) 20, IsochroneCall (6, 0) 20])"
proof (intro conjI)
  show "normalized_intersection grid_shapely [touching_iso (4, 0) 15, touching_iso (6, 0) 15]
          = Inr (Grid False False False False)"
    by (simp add: normalized_intersection_def touching_iso_def run_defs)
  have run: "meeting_point grid_shapely (fake_mapbox touching_iso ten_minutes) ascii_ops
         (request_for [''A st'', ''Bee st''] 15 ''min_sum'')
       = (Inr (JSONResponse False ''no_common_reachable_region'' 15),
          [GeocodeCall ''A st'', GeocodeCall ''Bee st'',
           IsochroneCall (4, 0) 15, IsochroneCall (6, 0) 15])"
    by (simp add: touching_iso_def run_defs)
  show "fst (meeting_point grid_shapely (fake_mapbox touching_iso ten_minutes) ascii_ops
              (request_for [''A st'', ''Bee st''] 15 ''min_sum''))
       = Inr (JSONResponse False ''no_common_reachable_region'' 15)"
    by (simp add: run)
  show "filter is_isochrone_call
         (snd (meeting_point grid_shapely (fake_mapbox touching_iso ten_minutes) ascii_ops
                 (request_for [''A st'', ''Bee st''] 15 ''min_sum'')))
       = [IsochroneCall (4, 0) 15, IsochroneCall (6, 0) 15]"
    by (simp add: run)
  show "meeting_point grid_shapely (fake_mapbox disjoint_iso ten_minutes) ascii_ops
         (request_for [''A st'', ''Bee st''] 15 ''min_sum'')
       = (Inr (JSONResponse False ''no_common_reachable_region'' 20),
          [GeocodeCall ''A st'', GeocodeCall ''Bee st'',
           IsochroneCall (4, 0) 15, IsochroneCall (6, 0) 15,
           IsochroneCall (4, 0) 20, IsochroneCall (6, 0) 20])"
    by (simp add: disjoint_iso_def run_defs)
qed simp_all


end
